theory Spec2Isabelle
  imports Main "HOL-Library.Word"
begin

section \<open>The walking differ of containerd (diff/walking/differ.go)\<close>

text \<open>
  The file embeds \<^verbatim>\<open>readonlyOverlay\<close> and \<^verbatim>\<open>Compare\<close> of
  \<^verbatim>\<open>diff/walking/differ.go\<close>. The collaborators that \<^verbatim>\<open>Compare\<close> calls
  (the content store and its writer, the mount package, the archive and compression
  packages, the digester, the clock and the random source) are not part of that file;
  they enter the model as a record of answers, one field per call, and every call that
  \<^verbatim>\<open>Compare\<close> makes is appended to a trace.
\<close>

subsection \<open>Strings\<close>

text \<open>Go's \<^verbatim>\<open>strings.HasPrefix\<close> and \<^verbatim>\<open>strings.TrimPrefix\<close> over byte strings.\<close>

definition HasPrefix :: "string \<Rightarrow> string \<Rightarrow> bool" where
  "HasPrefix s p = (take (length p) s = p)"

definition TrimPrefix :: "string \<Rightarrow> string \<Rightarrow> string" where
  "TrimPrefix s p = (if HasPrefix s p then drop (length p) s else s)"

subsection \<open>readonlyOverlay\<close>

text \<open>
  The first loop of \<^verbatim>\<open>readonlyOverlay\<close>: it walks \<^verbatim>\<open>opt\<close> once, carrying the
  slice \<^verbatim>\<open>out\<close> and the variable \<^verbatim>\<open>upper\<close>. Every \<^verbatim>\<open>upperdir=\<close> entry
  overwrites \<^verbatim>\<open>upper\<close>; an entry that is neither \<^verbatim>\<open>upperdir=\<close> nor
  \<^verbatim>\<open>workdir=\<close> is appended to \<^verbatim>\<open>out\<close>.
\<close>

fun scanOptions :: "string list \<Rightarrow> string list \<Rightarrow> string \<Rightarrow> string list \<times> string" where
  "scanOptions [] out upper = (out, upper)"
| "scanOptions (o1 # opt) out upper =
     (if HasPrefix o1 ''upperdir='' then scanOptions opt out (TrimPrefix o1 ''upperdir='')
      else if \<not> HasPrefix o1 ''workdir='' then scanOptions opt (out @ [o1]) upper
      else scanOptions opt out upper)"

text \<open>
  The second loop, \<^verbatim>\<open>for i, o := range out\<close>, which assigns \<^verbatim>\<open>out[i]\<close> in place.
  The index \<^verbatim>\<open>i\<close> runs from the given start to the length of \<^verbatim>\<open>out\<close>.
\<close>

function prependUpper :: "nat \<Rightarrow> string \<Rightarrow> string list \<Rightarrow> string list" where
  "prependUpper i upper out =
     (if i < length out then
        (let o1 = out ! i in
         prependUpper (Suc i) upper
           (if HasPrefix o1 ''lowerdir=''
            then out[i := ''lowerdir='' @ upper @ '':'' @ TrimPrefix o1 ''lowerdir='']
            else out))
      else out)"
  by pat_completeness auto
termination
  by (relation "measure (\<lambda>(i, upper, out). length out - i)") auto

declare prependUpper.simps [simp del]

definition readonlyOverlay :: "string list \<Rightarrow> string list" where
  "readonlyOverlay opt =
     (case scanOptions opt [] '''' of
        (out, upper) \<Rightarrow> if upper \<noteq> '''' then prependUpper 0 upper out else out)"

subsection \<open>Data of Compare\<close>

type_synonym bytes = "8 word list"

text \<open>A Go \<^verbatim>\<open>map[string]string\<close>; the nil map is \<open>None\<close> of the option around it.\<close>

type_synonym labels = "string \<rightharpoonup> string"

text \<open>
  Error values. \<open>ErrNew\<close> is \<^verbatim>\<open>errors.New\<close>, \<open>Wrap\<close> is \<^verbatim>\<open>errors.Wrap\<close> and
  \<^verbatim>\<open>errors.Wrapf\<close> (the formatted message as a string), the two sentinels are those of
  package \<^verbatim>\<open>errdefs\<close>, and \<open>ErrExternal\<close> is any other error of a collaborator.
\<close>

datatype err =
    ErrNew string
  | ErrNotImplemented
  | ErrAlreadyExists
  | ErrExternal string
  | Wrap err string

text \<open>
  Modelled from the spec: \<^verbatim>\<open>errdefs.IsAlreadyExists\<close> is not part of differ.go. By
  the blob store contract a commit answers with an error or with an already-exists
  error; an error is an already-exists error when it is the sentinel of package
  \<^verbatim>\<open>errdefs\<close> or wraps it.
\<close>

primrec IsAlreadyExists :: "err \<Rightarrow> bool" where
  "IsAlreadyExists (ErrNew msg) = False"
| "IsAlreadyExists ErrNotImplemented = False"
| "IsAlreadyExists ErrAlreadyExists = True"
| "IsAlreadyExists (ErrExternal msg) = False"
| "IsAlreadyExists (Wrap e msg) = IsAlreadyExists e"

record Mount =
  Type :: string
  Source :: string
  Options :: "string list"

text \<open>\<^verbatim>\<open>ocispec.Descriptor\<close>, with the three fields that Compare sets.\<close>

record Descriptor =
  desc_MediaType :: string
  desc_Digest :: string
  desc_Size :: int

text \<open>\<^verbatim>\<open>content.Info\<close>, with the fields that Compare reads or writes.\<close>

record Info =
  info_Digest :: string
  info_Size :: int
  info_Labels :: "labels option"

text \<open>
  \<^verbatim>\<open>diff.Config\<close>. A compressor is called with the media type and answers with an error
  or with a stream; the stream is modelled by the bytes it hands to the store writer for
  the raw bytes written into it.
\<close>

record Config =
  MediaType :: string
  Reference :: string
  Labels :: "labels option"
  Compressor :: "(string \<Rightarrow> err + (bytes \<Rightarrow> bytes)) option"

type_synonym Opt = "Config \<Rightarrow> err + Config"

definition emptyDesc :: Descriptor where
  "emptyDesc = \<lparr>desc_MediaType = '''', desc_Digest = '''', desc_Size = 0\<rparr>"

definition uncompressed :: string where
  "uncompressed = ''containerd.io/uncompressed''"

text \<open>
  Modelled from the spec: the media types that the specification calls the uncompressed
  and the compressed image layer are constants of the Go package of the OCI image
  specification, not of differ.go. They are given the strings of that specification;
  below it only matters that they differ and are not empty.
\<close>

definition MediaTypeImageLayer :: string where
  "MediaTypeImageLayer = ''application/vnd.oci.image.layer.v1.tar''"

definition MediaTypeImageLayerGzip :: string where
  "MediaTypeImageLayerGzip = ''application/vnd.oci.image.layer.v1.tar+gzip''"

subsection \<open>The collaborators\<close>

text \<open>
  Compare mounts two mount sets; the tag tells the environment which of the two calls of
  \<^verbatim>\<open>mount.WithTempMount\<close> it answers.
\<close>

datatype mountset = LowerSet | UpperSet

text \<open>The writer that \<^verbatim>\<open>archive.WriteDiff\<close> is given.\<close>

datatype sink = CompressorAndDigester | StoreWriter

text \<open>
  The answers of the collaborators. Compare makes each of these calls at most once (the
  mount calls once per mount set), so an answer is a function of the call's arguments.
  \<open>uniqueRef\<close> is the string that \<^verbatim>\<open>uniqueRef()\<close> formats from the clock and three
  random bytes. \<open>archive_WriteDiff\<close> answers with the bytes it wrote and its error.
  \<open>digest_SHA256\<close> is the string of the SHA-256 digest of the bytes the digester was fed,
  \<open>cw_Digest\<close> the store writer's digest of the bytes written to it.
\<close>

record env =
  uniqueRef :: string
  mount_All :: "mountset \<Rightarrow> Mount list \<Rightarrow> err + string"
  mount_UnmountAll :: "mountset \<Rightarrow> string \<Rightarrow> err option"
  store_Writer :: "string \<Rightarrow> string \<Rightarrow> err option"
  cw_Truncate :: "int \<Rightarrow> err option"
  compression_CompressStream :: "err + (bytes \<Rightarrow> bytes)"
  archive_WriteDiff :: "string \<Rightarrow> string \<Rightarrow> bytes \<times> err option"
  digest_SHA256 :: "bytes \<Rightarrow> string"
  cw_Digest :: "bytes \<Rightarrow> string"
  cw_Commit :: "int \<Rightarrow> string \<Rightarrow> labels option \<Rightarrow> err option"
  store_Info :: "string \<Rightarrow> err + Info"
  store_Update :: "Info \<Rightarrow> string list \<Rightarrow> err option"
  store_Abort :: "string \<Rightarrow> err option"

text \<open>The calls Compare makes, in the order it makes them.\<close>

datatype event =
    EvMount mountset "Mount list"
  | EvUnmount mountset string
  | EvUniqueRef
  | EvWriter string string
  | EvTruncate int
  | EvCompressor string
  | EvCompressStream
  | EvWriteDiff sink string string
  | EvCompressedClose
  | EvDigest
  | EvCommit int string "labels option"
  | EvInfo string
  | EvUpdate Info "string list"
  | EvClose
  | EvAbort string
  | EvWarn err string

text \<open>
  The variables the closure of Compare shares with Compare: \<^verbatim>\<open>config\<close> and
  \<^verbatim>\<open>ocidesc\<close>, and the trace of calls.
\<close>

record cstate =
  config :: Config
  ocidesc :: Descriptor
  trace :: "event list"

definition emit :: "event \<Rightarrow> cstate \<Rightarrow> cstate" where
  "emit e st = st\<lparr>trace := trace st @ [e]\<rparr>"

text \<open>
  A step of the closure after the writer is open either returns from the closure (with
  the error it returns and the value of \<^verbatim>\<open>errOpen\<close> at that moment) or goes on.
\<close>

datatype 'a step = Failed err "err option" cstate | Ok 'a cstate

subsection \<open>Compare: options, overlay rewrite, media type\<close>

text \<open>The loop over \<^verbatim>\<open>opts\<close>: the first option that fails ends Compare.\<close>

fun applyOpts :: "Opt list \<Rightarrow> Config \<Rightarrow> err + Config" where
  "applyOpts [] c = Inr c"
| "applyOpts (opt # opts) c =
     (case opt c of Inl e \<Rightarrow> Inl e | Inr c' \<Rightarrow> applyOpts opts c')"

definition zeroConfig :: Config where
  "zeroConfig = \<lparr>MediaType = '''', Reference = '''', Labels = None, Compressor = None\<rparr>"

text \<open>
  The loop \<^verbatim>\<open>for i, m := range upper\<close>, which assigns \<^verbatim>\<open>upper[i].Options\<close> in
  the caller's slice.
\<close>

function rewriteUpper :: "nat \<Rightarrow> Mount list \<Rightarrow> Mount list" where
  "rewriteUpper i upper =
     (if i < length upper then
        (let m = upper ! i in
         rewriteUpper (Suc i)
           (if Type m = ''overlay''
            then upper[i := (upper ! i)\<lparr>Options := readonlyOverlay (Options m)\<rparr>]
            else upper))
      else upper)"
  by pat_completeness auto
termination
  by (relation "measure (\<lambda>(i, upper). length upper - i)") auto

declare rewriteUpper.simps [simp del]

text \<open>
  The block that sets \<^verbatim>\<open>isCompressed\<close>: it returns the error Compare returns, or
  the configuration (with the media type defaulted) and \<^verbatim>\<open>isCompressed\<close>.
\<close>

definition resolveMediaType :: "Config \<Rightarrow> err + (Config \<times> bool)" where
  "resolveMediaType c =
     (case Compressor c of
        Some f \<Rightarrow>
          (if MediaType c = ''''
           then Inl (ErrNew ''media type must be explicitly specified when using custom compressor'')
           else Inr (c, True))
      | None \<Rightarrow>
          (let c1 = (if MediaType c = '''' then c\<lparr>MediaType := MediaTypeImageLayerGzip\<rparr> else c) in
           if MediaType c1 = MediaTypeImageLayer then Inr (c1, False)
           else if MediaType c1 = MediaTypeImageLayerGzip then Inr (c1, True)
           else Inl (Wrap ErrNotImplemented (''unsupported diff media type: '' @ MediaType c1))))"

subsection \<open>Compare: the closure\<close>

text \<open>Reading a Go map: a missing key, and every key of the nil map, reads as the empty string.\<close>

definition labelOf :: "labels option \<Rightarrow> string \<Rightarrow> string" where
  "labelOf ls k = (case ls of None \<Rightarrow> '''' | Some m \<Rightarrow> (case m k of None \<Rightarrow> '''' | Some v \<Rightarrow> v))"

text \<open>\<^verbatim>\<open>if !newReference { if errOpen = cw.Truncate(0); errOpen != nil { return errOpen } }\<close>\<close>

definition truncateWriter :: "env \<Rightarrow> bool \<Rightarrow> cstate \<Rightarrow> unit step" where
  "truncateWriter env newReference st =
     (if \<not> newReference then
        (case cw_Truncate env 0 of
           Some e \<Rightarrow> Failed e (Some e) (emit (EvTruncate 0) st)
         | None \<Rightarrow> Ok () (emit (EvTruncate 0) st))
      else Ok () st)"

text \<open>
  The branch on \<^verbatim>\<open>isCompressed\<close>. It goes on with the bytes that reached the store
  writer; on the compressed path it has stored the digest of the raw bytes in
  \<^verbatim>\<open>config.Labels\<close>.
\<close>

definition writeStream :: "env \<Rightarrow> bool \<Rightarrow> string \<Rightarrow> string \<Rightarrow> cstate \<Rightarrow> bytes step" where
  "writeStream env isCompressed lowerRoot upperRoot st =
     (if isCompressed then
        (let cfg = config st;
             opened = (case Compressor cfg of
                         Some f \<Rightarrow> f (MediaType cfg)
                       | None \<Rightarrow> compression_CompressStream env);
             st1 = (case Compressor cfg of
                      Some f \<Rightarrow> emit (EvCompressor (MediaType cfg)) st
                    | None \<Rightarrow> emit EvCompressStream st)
         in case opened of
              Inl e \<Rightarrow> Failed (Wrap e ''failed to get compressed stream'') (Some e) st1
            | Inr compressed \<Rightarrow>
                (let st2 = emit EvCompressedClose
                             (emit (EvWriteDiff CompressorAndDigester lowerRoot upperRoot) st1)
                 in case archive_WriteDiff env lowerRoot upperRoot of
                      (raw, Some e) \<Rightarrow> Failed (Wrap e ''failed to write compressed diff'') (Some e) st2
                    | (raw, None) \<Rightarrow>
                        (let ls = (case Labels cfg of None \<Rightarrow> Map.empty | Some m \<Rightarrow> m)
                         in Ok (compressed raw)
                              (st2\<lparr>config := cfg\<lparr>Labels :=
                                 Some (ls(uncompressed \<mapsto> digest_SHA256 env raw))\<rparr>\<rparr>))))
      else
        (let st1 = emit (EvWriteDiff StoreWriter lowerRoot upperRoot) st
         in case archive_WriteDiff env lowerRoot upperRoot of
              (raw, Some e) \<Rightarrow> Failed (Wrap e ''failed to write diff'') (Some e) st1
            | (raw, None) \<Rightarrow> Ok raw st1))"

text \<open>
  \<^verbatim>\<open>cw.Digest()\<close> and \<^verbatim>\<open>cw.Commit\<close>. The commit options are
  \<^verbatim>\<open>content.WithLabels(config.Labels)\<close> when the labels are not nil and none otherwise,
  so they are modelled by \<^verbatim>\<open>config.Labels\<close> itself.
\<close>

definition commitWriter :: "env \<Rightarrow> bytes \<Rightarrow> cstate \<Rightarrow> string step" where
  "commitWriter env written st =
     (let commitopts = Labels (config st);
          dgst = cw_Digest env written;
          st1 = emit (EvCommit 0 dgst commitopts) (emit EvDigest st)
      in case cw_Commit env 0 dgst commitopts of
           Some e \<Rightarrow>
             if \<not> IsAlreadyExists e then Failed (Wrap e ''failed to commit'') (Some e) st1
             else Ok dgst st1
         | None \<Rightarrow> Ok dgst st1)"

text \<open>\<^verbatim>\<open>store.Info\<close>, the label patch and the assignment of \<^verbatim>\<open>ocidesc\<close>.\<close>

definition descOf :: "Config \<Rightarrow> Info \<Rightarrow> Descriptor" where
  "descOf cfg info =
     \<lparr>desc_MediaType = MediaType cfg, desc_Digest = info_Digest info, desc_Size = info_Size info\<rparr>"

definition reconcileLabel :: "env \<Rightarrow> string \<Rightarrow> cstate \<Rightarrow> unit step" where
  "reconcileLabel env dgst st =
     (let st1 = emit (EvInfo dgst) st in
      case store_Info env dgst of
        Inl e \<Rightarrow> Failed (Wrap e ''failed to get info from content store'') None st1
      | Inr info0 \<Rightarrow>
          (let ls = (case info_Labels info0 of None \<Rightarrow> Map.empty | Some m \<Rightarrow> m);
               info1 = info0\<lparr>info_Labels := Some ls\<rparr>
           in if ls uncompressed = None then
                (let info2 = info1\<lparr>info_Labels :=
                               Some (ls(uncompressed \<mapsto> labelOf (Labels (config st)) uncompressed))\<rparr>;
                     st2 = emit (EvUpdate info2 [''labels.'' @ uncompressed]) st1
                 in case store_Update env info2 [''labels.'' @ uncompressed] of
                      Some e \<Rightarrow> Failed (Wrap e ''error setting uncompressed label'') None st2
                    | None \<Rightarrow> Ok () (st2\<lparr>ocidesc := descOf (config st) info2\<rparr>))
              else Ok () (st1\<lparr>ocidesc := descOf (config st) info1\<rparr>)))"

text \<open>The closure from the truncation to its last \<^verbatim>\<open>return nil\<close>: the value it returns,
  the value of \<^verbatim>\<open>errOpen\<close> when it returns, and the state.\<close>

definition writerBody ::
  "env \<Rightarrow> bool \<Rightarrow> bool \<Rightarrow> string \<Rightarrow> string \<Rightarrow> cstate \<Rightarrow> err option \<times> err option \<times> cstate" where
  "writerBody env isCompressed newReference lowerRoot upperRoot st =
     (case truncateWriter env newReference st of
        Failed e errOpen st1 \<Rightarrow> (Some e, errOpen, st1)
      | Ok u st1 \<Rightarrow>
     (case writeStream env isCompressed lowerRoot upperRoot st1 of
        Failed e errOpen st2 \<Rightarrow> (Some e, errOpen, st2)
      | Ok written st2 \<Rightarrow>
     (case commitWriter env written st2 of
        Failed e errOpen st3 \<Rightarrow> (Some e, errOpen, st3)
      | Ok dgst st3 \<Rightarrow>
     (case reconcileLabel env dgst st3 of
        Failed e errOpen st4 \<Rightarrow> (Some e, errOpen, st4)
      | Ok u st4 \<Rightarrow> (None, None, st4)))))"

text \<open>The deferred function of the closure, run with the value of \<^verbatim>\<open>errOpen\<close> at return.\<close>

definition deferredCleanup :: "env \<Rightarrow> bool \<Rightarrow> err option \<Rightarrow> cstate \<Rightarrow> cstate" where
  "deferredCleanup env newReference errOpen st =
     (if errOpen \<noteq> None then
        (let st1 = emit EvClose st in
         if newReference then
           (let ref = Reference (config st1); st2 = emit (EvAbort ref) st1 in
            case store_Abort env ref of
              Some abortErr \<Rightarrow> emit (EvWarn abortErr ref) st2
            | None \<Rightarrow> st2)
         else st1)
      else st)"

text \<open>The closure that Compare hands to the inner \<^verbatim>\<open>mount.WithTempMount\<close>.\<close>

definition uploadDiff :: "env \<Rightarrow> bool \<Rightarrow> string \<Rightarrow> string \<Rightarrow> cstate \<Rightarrow> err option \<times> cstate" where
  "uploadDiff env isCompressed lowerRoot upperRoot st =
     (let newReference = (Reference (config st) = '''');
          st1 = (if newReference
                 then emit EvUniqueRef (st\<lparr>config := (config st)\<lparr>Reference := uniqueRef env\<rparr>\<rparr>)
                 else st);
          ref = Reference (config st1);
          st2 = emit (EvWriter ref (MediaType (config st1))) st1
      in case store_Writer env ref (MediaType (config st1)) of
           Some e \<Rightarrow> (Some (Wrap e ''failed to open writer''), st2)
         | None \<Rightarrow>
             (case writerBody env isCompressed newReference lowerRoot upperRoot st2 of
                (ret, errOpen, st3) \<Rightarrow> (ret, deferredCleanup env newReference errOpen st3)))"

subsection \<open>Compare\<close>

text \<open>
  Modelled from the spec: \<^verbatim>\<open>mount.WithTempMount\<close> is not part of differ.go. By the
  mount session contract it mounts the set at a temporary root, calls the function with
  that root and unmounts before it returns, also when the function fails. A failed mount
  ends it before the function is called; a failed unmount makes it return an error also
  when the function returned none.
\<close>

definition unmountResult :: "err option \<Rightarrow> err option \<Rightarrow> err option" where
  "unmountResult uerr ret =
     (case uerr of
        None \<Rightarrow> ret
      | Some ue \<Rightarrow>
          Some (case ret of
                  None \<Rightarrow> Wrap ue ''failed to unmount''
                | Some e \<Rightarrow> Wrap e ''failed to unmount''))"

definition WithTempMount ::
  "env \<Rightarrow> mountset \<Rightarrow> Mount list \<Rightarrow> (string \<Rightarrow> cstate \<Rightarrow> err option \<times> cstate) \<Rightarrow> cstate
     \<Rightarrow> err option \<times> cstate" where
  "WithTempMount env which mounts f st =
     (case mount_All env which mounts of
        Inl e \<Rightarrow> (Some (Wrap e ''failed to mount''), emit (EvMount which mounts) st)
      | Inr root \<Rightarrow>
          (case f root (emit (EvMount which mounts) st) of
             (ret, st1) \<Rightarrow>
               (unmountResult (mount_UnmountAll env which root) ret,
                emit (EvUnmount which root) st1)))"

text \<open>
  What a call of Compare leaves behind: the two values it returns, the caller's
  \<^verbatim>\<open>upper\<close> slice (Compare assigns to its elements) and the calls it made.
\<close>

record outcome =
  ret_d :: Descriptor
  ret_err :: "err option"
  upper_after :: "Mount list"
  calls :: "event list"

text \<open>Compare from \<^verbatim>\<open>var ocidesc\<close> on, with the configuration and
  \<^verbatim>\<open>isCompressed\<close> as the block before left them.\<close>

definition diffAndStore :: "env \<Rightarrow> Mount list \<Rightarrow> Mount list \<Rightarrow> Config \<Rightarrow> bool \<Rightarrow> outcome" where
  "diffAndStore env lower upper1 config1 isCompressed =
     (case WithTempMount env LowerSet lower
             (\<lambda>lowerRoot. WithTempMount env UpperSet upper1
                (\<lambda>upperRoot. uploadDiff env isCompressed lowerRoot upperRoot))
             \<lparr>config = config1, ocidesc = emptyDesc, trace = []\<rparr> of
        (Some e, st) \<Rightarrow>
          \<lparr>ret_d = emptyDesc, ret_err = Some e, upper_after = upper1, calls = trace st\<rparr>
      | (None, st) \<Rightarrow>
          \<lparr>ret_d = ocidesc st, ret_err = None, upper_after = upper1, calls = trace st\<rparr>)"

definition Compare :: "env \<Rightarrow> Mount list \<Rightarrow> Mount list \<Rightarrow> Opt list \<Rightarrow> outcome" where
  "Compare env lower upper opts =
     (case applyOpts opts zeroConfig of
        Inl e \<Rightarrow> \<lparr>ret_d = emptyDesc, ret_err = Some e, upper_after = upper, calls = []\<rparr>
      | Inr config0 \<Rightarrow>
          (let upper1 = rewriteUpper 0 upper in
           case resolveMediaType config0 of
             Inl e \<Rightarrow> \<lparr>ret_d = emptyDesc, ret_err = Some e, upper_after = upper1, calls = []\<rparr>
           | Inr (config1, isCompressed) \<Rightarrow> diffAndStore env lower upper1 config1 isCompressed))"

section \<open>Auxiliary definitions\<close>

subsection \<open>The options of package diff\<close>

text \<open>
  Modelled from the spec: the option constructors of package \<^verbatim>\<open>diff\<close> are not part of
  differ.go. By the configuration surface of the specification each of them sets one
  field of the configuration and does not fail.
\<close>

definition WithMediaType :: "string \<Rightarrow> Opt" where
  "WithMediaType m c = Inr (c\<lparr>MediaType := m\<rparr>)"

definition WithReference :: "string \<Rightarrow> Opt" where
  "WithReference ref c = Inr (c\<lparr>Reference := ref\<rparr>)"

definition WithLabels :: "labels \<Rightarrow> Opt" where
  "WithLabels ls c = Inr (c\<lparr>Labels := Some ls\<rparr>)"

definition WithCompressor :: "(string \<Rightarrow> err + (bytes \<Rightarrow> bytes)) \<Rightarrow> Opt" where
  "WithCompressor f c = Inr (c\<lparr>Compressor := Some f\<rparr>)"

subsection \<open>What readonlyOverlay computes\<close>

text \<open>The entries that the first loop keeps.\<close>

definition keptOption :: "string \<Rightarrow> bool" where
  "keptOption o1 = (\<not> HasPrefix o1 ''upperdir='' \<and> \<not> HasPrefix o1 ''workdir='')"

text \<open>
  The value that the first loop leaves in \<^verbatim>\<open>upper\<close>: the value of the last
  \<^verbatim>\<open>upperdir=\<close> entry, and the empty string when there is none.
\<close>

definition upperValue :: "string list \<Rightarrow> string" where
  "upperValue opt =
     last ('''' # map (\<lambda>o1. TrimPrefix o1 ''upperdir='')
                    (filter (\<lambda>o1. HasPrefix o1 ''upperdir='') opt))"

fun lastUpper :: "string list \<Rightarrow> string \<Rightarrow> string" where
  "lastUpper [] upper = upper"
| "lastUpper (o1 # opt) upper =
     lastUpper opt (if HasPrefix o1 ''upperdir='' then TrimPrefix o1 ''upperdir='' else upper)"

text \<open>What the second loop does to one entry.\<close>

definition withUpper :: "string \<Rightarrow> string \<Rightarrow> string" where
  "withUpper upper o1 =
     (if HasPrefix o1 ''lowerdir=''
      then ''lowerdir='' @ upper @ '':'' @ TrimPrefix o1 ''lowerdir='' else o1)"

text \<open>What the loop over \<^verbatim>\<open>upper\<close> in Compare does to one mount.\<close>

definition overlayMount :: "Mount \<Rightarrow> Mount" where
  "overlayMount m =
     (if Type m = ''overlay'' then m\<lparr>Options := readonlyOverlay (Options m)\<rparr> else m)"

subsection \<open>The calls of Compare, stage by stage\<close>

text \<open>The reference of the writer: the caller's, or the generated one.\<close>

definition reference :: "env \<Rightarrow> Config \<Rightarrow> string" where
  "reference env c = (if Reference c = '''' then uniqueRef env else Reference c)"

definition openCalls :: "env \<Rightarrow> Config \<Rightarrow> event list" where
  "openCalls env c =
     (if Reference c = '''' then [EvUniqueRef] else []) @ [EvWriter (reference env c) (MediaType c)]"

definition truncateCalls :: "Config \<Rightarrow> event list" where
  "truncateCalls c = (if Reference c = '''' then [] else [EvTruncate 0])"

definition cleanupCalls :: "env \<Rightarrow> Config \<Rightarrow> event list" where
  "cleanupCalls env c =
     EvClose #
     (if Reference c = '''' then
        EvAbort (reference env c) #
        (case store_Abort env (reference env c) of
           None \<Rightarrow> []
         | Some abortErr \<Rightarrow> [EvWarn abortErr (reference env c)])
      else [])"

definition openedStream :: "env \<Rightarrow> Config \<Rightarrow> err + (bytes \<Rightarrow> bytes)" where
  "openedStream env c =
     (case Compressor c of Some f \<Rightarrow> f (MediaType c) | None \<Rightarrow> compression_CompressStream env)"

definition compressorCall :: "Config \<Rightarrow> event" where
  "compressorCall c =
     (case Compressor c of Some f \<Rightarrow> EvCompressor (MediaType c) | None \<Rightarrow> EvCompressStream)"

definition streamCalls :: "Config \<Rightarrow> bool \<Rightarrow> string \<Rightarrow> string \<Rightarrow> event list" where
  "streamCalls c isC lr ur =
     (if isC then [compressorCall c, EvWriteDiff CompressorAndDigester lr ur, EvCompressedClose]
      else [EvWriteDiff StoreWriter lr ur])"

text \<open>The bytes that reach the store writer, and \<^verbatim>\<open>config.Labels\<close> at the commit.\<close>

definition writtenBytes :: "bool \<Rightarrow> (bytes \<Rightarrow> bytes) \<Rightarrow> bytes \<Rightarrow> bytes" where
  "writtenBytes isC compressed raw = (if isC then compressed raw else raw)"

definition commitLabels :: "env \<Rightarrow> Config \<Rightarrow> bool \<Rightarrow> bytes \<Rightarrow> labels option" where
  "commitLabels env c isC raw =
     (if isC
      then Some ((case Labels c of None \<Rightarrow> Map.empty | Some m \<Rightarrow> m)
                   (uncompressed \<mapsto> digest_SHA256 env raw))
      else Labels c)"

text \<open>The commit went through: it answered with no error, or with one that is already-exists.\<close>

definition committed :: "env \<Rightarrow> string \<Rightarrow> labels option \<Rightarrow> bool" where
  "committed env dgst ls =
     (case cw_Commit env 0 dgst ls of None \<Rightarrow> True | Some e \<Rightarrow> IsAlreadyExists e)"

text \<open>The uncompressed-digest label of a stored blob, and the metadata with that label set.\<close>

definition storedLabel :: "Info \<Rightarrow> string option" where
  "storedLabel info = (case info_Labels info of None \<Rightarrow> None | Some m \<Rightarrow> m uncompressed)"

definition patchedInfo :: "Info \<Rightarrow> string \<Rightarrow> Info" where
  "patchedInfo info v =
     info\<lparr>info_Labels :=
       Some ((case info_Labels info of None \<Rightarrow> Map.empty | Some m \<Rightarrow> m)(uncompressed \<mapsto> v))\<rparr>"

text \<open>
  The outcome of Compare once both mount sets are mounted: the closure returned
  \<open>ret\<close>, had assigned \<open>d\<close> to \<^verbatim>\<open>ocidesc\<close> and the calls up to its return were
  \<open>evs\<close>; then both roots are unmounted.
\<close>

definition finished ::
  "env \<Rightarrow> Mount list \<Rightarrow> string \<Rightarrow> string \<Rightarrow> err option \<Rightarrow> Descriptor \<Rightarrow> event list \<Rightarrow> outcome" where
  "finished env upper1 lr ur ret d evs =
     \<lparr>ret_d = (if unmountResult (mount_UnmountAll env LowerSet lr)
                     (unmountResult (mount_UnmountAll env UpperSet ur) ret) = None
                then d else emptyDesc),
      ret_err = unmountResult (mount_UnmountAll env LowerSet lr)
                  (unmountResult (mount_UnmountAll env UpperSet ur) ret),
      upper_after = upper1,
      calls = evs @ [EvUnmount UpperSet ur, EvUnmount LowerSet lr]\<rparr>"

definition mountedState :: "Mount list \<Rightarrow> Mount list \<Rightarrow> Config \<Rightarrow> cstate" where
  "mountedState lower upper1 c =
     \<lparr>config = c, ocidesc = emptyDesc, trace = [EvMount LowerSet lower, EvMount UpperSet upper1]\<rparr>"

text \<open>
  The answers under which Compare gets as far as writing the diff, and as far as the
  commit (with the raw bytes of the diff and the stream of the compressor).
\<close>

definition reachesStream :: "env \<Rightarrow> Mount list \<Rightarrow> Mount list \<Rightarrow> Config \<Rightarrow> string \<Rightarrow> string \<Rightarrow> bool" where
  "reachesStream env lower upper1 c lr ur =
     (mount_All env LowerSet lower = Inr lr \<and> mount_All env UpperSet upper1 = Inr ur \<and>
      store_Writer env (reference env c) (MediaType c) = None \<and>
      (Reference c = '''' \<or> cw_Truncate env 0 = None))"

definition reachesCommit ::
  "env \<Rightarrow> Mount list \<Rightarrow> Mount list \<Rightarrow> Config \<Rightarrow> bool \<Rightarrow> string \<Rightarrow> string \<Rightarrow> bytes
     \<Rightarrow> (bytes \<Rightarrow> bytes) \<Rightarrow> bool" where
  "reachesCommit env lower upper1 c isC lr ur raw compressed =
     (reachesStream env lower upper1 c lr ur \<and>
      (isC \<longrightarrow> openedStream env c = Inr compressed) \<and>
      archive_WriteDiff env lr ur = (raw, None))"

subsection \<open>Reading a trace\<close>

text \<open>The call made right after the first occurrence of a given call.\<close>

fun nextCall :: "event \<Rightarrow> event list \<Rightarrow> event option" where
  "nextCall e (x # y # tr) = (if x = e then Some y else nextCall e (y # tr))"
| "nextCall e tr = None"

subsection \<open>Failed calls\<close>



subsection \<open>An environment to run Compare in\<close>

text \<open>
  Every collaborator succeeds: the store has no blob under the digest, takes the commit
  and reports the blob with the labels of the commit.
\<close>

definition sampleLabels :: labels where
  "sampleLabels = [uncompressed \<mapsto> ''sha256:raw'']"

definition sampleEnv :: env where
  "sampleEnv =
     \<lparr>uniqueRef = ''1700000000-AAAA'',
      mount_All = (\<lambda>which ms. Inr (case which of LowerSet \<Rightarrow> ''/tmp/lower'' | UpperSet \<Rightarrow> ''/tmp/upper'')),
      mount_UnmountAll = (\<lambda>which root. None),
      store_Writer = (\<lambda>ref mt. None),
      cw_Truncate = (\<lambda>n. None),
      compression_CompressStream = Inr (\<lambda>raw. 31 # 139 # raw),
      archive_WriteDiff = (\<lambda>lr ur. ([1, 2, 3], None)),
      digest_SHA256 = (\<lambda>raw. ''sha256:raw''),
      cw_Digest = (\<lambda>written. ''sha256:blob''),
      cw_Commit = (\<lambda>n d ls. None),
      store_Info = (\<lambda>d. Inr \<lparr>info_Digest = d, info_Size = 5, info_Labels = Some sampleLabels\<rparr>),
      store_Update = (\<lambda>info fs. None),
      store_Abort = (\<lambda>ref. None)\<rparr>"

text \<open>An upper mount set with an overlay mount and a bind mount.\<close>

definition sampleUpper :: "Mount list" where
  "sampleUpper =
     [\<lparr>Type = ''overlay'', Source = ''overlay'',
       Options = [''workdir=/w'', ''upperdir=/u'', ''lowerdir=/l2:/l1'']\<rparr>,
      \<lparr>Type = ''bind'', Source = ''/data'', Options = [''upperdir=/x'', ''rbind'']\<rparr>]"


text \<open>
  The environment in which every already-exists answer of \<^verbatim>\<open>cw.Commit\<close> is replaced
  by the answer of a commit that went through.
\<close>

definition dedupAsSuccess :: "env \<Rightarrow> env" where
  "dedupAsSuccess env =
     env\<lparr>cw_Commit := \<lambda>n d ls.
           (case cw_Commit env n d ls of
              None \<Rightarrow> None
            | Some e \<Rightarrow> if IsAlreadyExists e then None else Some e)\<rparr>"

text \<open>The store has the blob already, with the label it got from an earlier writer.\<close>

definition existingEnv :: env where
  "existingEnv =
     sampleEnv\<lparr>cw_Commit := \<lambda>n d ls. Some (Wrap ErrAlreadyExists ''content sha256:blob''),
               store_Info := \<lambda>d. Inr \<lparr>info_Digest = d, info_Size = 5,
                                        info_Labels = Some [uncompressed \<mapsto> ''sha256:earlier'']\<rparr>\<rparr>"

text \<open>The store reports the blob without labels.\<close>

definition unlabelledEnv :: env where
  "unlabelledEnv =
     sampleEnv\<lparr>store_Info := \<lambda>d. Inr \<lparr>info_Digest = d, info_Size = 3, info_Labels = None\<rparr>\<rparr>"

section \<open>Lemmas\<close>

subsection \<open>The loops of readonlyOverlay\<close>

lemma scanOptions_eq:
  "scanOptions opt out upper = (out @ filter keptOption opt, lastUpper opt upper)"
  by (induction opt arbitrary: out upper) (auto simp: keptOption_def)

lemma prependUpper_length [simp]: "length (prependUpper i upper out) = length out"
proof (induction i upper out rule: prependUpper.induct)
  case (1 i upper out)
  show ?case
  proof (cases "i < length out")
    case True
    with "1.IH" show ?thesis
      by (subst prependUpper.simps) (simp add: Let_def)
  next
    case False
    then show ?thesis by (subst prependUpper.simps) simp
  qed
qed

lemma prependUpper_eq:
  "prependUpper i upper out = take i out @ map (withUpper upper) (drop i out)"
proof (induction i upper out rule: prependUpper.induct)
  case (1 i upper out)
  show ?case
  proof (cases "i < length out")
    case False
    then show ?thesis by (subst prependUpper.simps) simp
  next
    case True
    let ?o = "out ! i"
    let ?out' = "if HasPrefix ?o ''lowerdir=''
                 then out[i := ''lowerdir='' @ upper @ '':'' @ TrimPrefix ?o ''lowerdir='']
                 else out"
    have step: "prependUpper i upper out = prependUpper (Suc i) upper ?out'"
      using True by (subst prependUpper.simps) (simp add: Let_def)
    have upd: "?out' = out[i := withUpper upper ?o]"
      by (simp add: withUpper_def)
    have ih: "prependUpper (Suc i) upper ?out' =
                take (Suc i) ?out' @ map (withUpper upper) (drop (Suc i) ?out')"
      using "1.IH" [OF True refl] by simp
    have tk: "take (Suc i) (out[i := withUpper upper ?o]) = take i out @ [withUpper upper ?o]"
      using True by (simp add: take_Suc_conv_app_nth)
    have dr: "drop i out = ?o # drop (Suc i) out"
      using True by (simp add: Cons_nth_drop_Suc)
    have "prependUpper i upper out =
            take (Suc i) (out[i := withUpper upper ?o]) @
            map (withUpper upper) (drop (Suc i) (out[i := withUpper upper ?o]))"
      using step ih upd by simp
    also have "\<dots> = take i out @ withUpper upper ?o # map (withUpper upper) (drop (Suc i) out)"
      by (simp add: tk)
    also have "\<dots> = take i out @ map (withUpper upper) (drop i out)"
      by (simp add: dr)
    finally show ?thesis .
  qed
qed

lemma lastUpper_eq:
  "lastUpper opt upper =
     last (upper # map (\<lambda>o1. TrimPrefix o1 ''upperdir='')
                     (filter (\<lambda>o1. HasPrefix o1 ''upperdir='') opt))"
  by (induction opt arbitrary: upper) simp_all

lemma readonlyOverlay_eq:
  "readonlyOverlay opt =
     (if upperValue opt \<noteq> ''''
      then map (withUpper (upperValue opt)) (filter keptOption opt)
      else filter keptOption opt)"
  by (simp add: readonlyOverlay_def scanOptions_eq prependUpper_eq upperValue_def lastUpper_eq)

subsection \<open>The loop over the upper mounts\<close>

lemma rewriteUpper_length [simp]: "length (rewriteUpper i upper) = length upper"
proof (induction i upper rule: rewriteUpper.induct)
  case (1 i upper)
  show ?case
  proof (cases "i < length upper")
    case True
    with "1.IH" show ?thesis
      by (subst rewriteUpper.simps) (simp add: Let_def)
  next
    case False
    then show ?thesis by (subst rewriteUpper.simps) simp
  qed
qed

lemma rewriteUpper_eq:
  "rewriteUpper i upper = take i upper @ map overlayMount (drop i upper)"
proof (induction i upper rule: rewriteUpper.induct)
  case (1 i upper)
  show ?case
  proof (cases "i < length upper")
    case False
    then show ?thesis by (subst rewriteUpper.simps) simp
  next
    case True
    let ?m = "upper ! i"
    let ?upper' = "if Type ?m = ''overlay''
                   then upper[i := ?m\<lparr>Options := readonlyOverlay (Options ?m)\<rparr>]
                   else upper"
    have step: "rewriteUpper i upper = rewriteUpper (Suc i) ?upper'"
      using True by (subst rewriteUpper.simps) (simp add: Let_def)
    have upd: "?upper' = upper[i := overlayMount ?m]"
      by (simp add: overlayMount_def)
    have ih: "rewriteUpper (Suc i) ?upper' =
                take (Suc i) ?upper' @ map overlayMount (drop (Suc i) ?upper')"
      using "1.IH" [OF True refl] by simp
    have tk: "take (Suc i) (upper[i := overlayMount ?m]) = take i upper @ [overlayMount ?m]"
      using True by (simp add: take_Suc_conv_app_nth)
    have dr: "drop i upper = ?m # drop (Suc i) upper"
      using True by (simp add: Cons_nth_drop_Suc)
    have "rewriteUpper i upper =
            take (Suc i) (upper[i := overlayMount ?m]) @
            map overlayMount (drop (Suc i) (upper[i := overlayMount ?m]))"
      using step ih upd by simp
    also have "\<dots> = take i upper @ overlayMount ?m # map overlayMount (drop (Suc i) upper)"
      by (simp add: tk)
    also have "\<dots> = take i upper @ map overlayMount (drop i upper)"
      by (simp add: dr)
    finally show ?thesis .
  qed
qed

lemma rewriteUpper_map: "rewriteUpper 0 upper = map overlayMount upper"
  by (simp add: rewriteUpper_eq)

subsection \<open>The paths of Compare\<close>

lemma mountedState_fields [simp]:
  "config (mountedState lower upper' c) = c"
  "ocidesc (mountedState lower upper' c) = emptyDesc"
  "trace (mountedState lower upper' c) = [EvMount LowerSet lower, EvMount UpperSet upper']"
  by (simp_all add: mountedState_def)

lemma path_lower_mount:
  assumes "mount_All env LowerSet lower = Inl e"
  shows "diffAndStore env lower upper' c isC =
     \<lparr>ret_d = emptyDesc, ret_err = Some (Wrap e ''failed to mount''), upper_after = upper',
      calls = [EvMount LowerSet lower]\<rparr>"
  using assms by (simp add: diffAndStore_def WithTempMount_def emit_def)

lemma unmountResult_Some: "\<exists>e'. unmountResult u (Some e) = Some e'"
  by (simp add: unmountResult_def split: option.splits)

lemma path_upper_mount:
  assumes "mount_All env LowerSet lower = Inr lr" "mount_All env UpperSet upper' = Inl e"
  shows "diffAndStore env lower upper' c isC =
     \<lparr>ret_d = emptyDesc,
      ret_err = unmountResult (mount_UnmountAll env LowerSet lr) (Some (Wrap e ''failed to mount'')),
      upper_after = upper',
      calls = [EvMount LowerSet lower, EvMount UpperSet upper', EvUnmount LowerSet lr]\<rparr>"
proof -
  obtain e' where "unmountResult (mount_UnmountAll env LowerSet lr) (Some (Wrap e ''failed to mount'')) = Some e'"
    using unmountResult_Some by blast
  with assms show ?thesis
    by (simp add: diffAndStore_def WithTempMount_def emit_def)
qed

lemma diffAndStore_mounted:
  assumes "mount_All env LowerSet lower = Inr lr" "mount_All env UpperSet upper' = Inr ur"
  shows "diffAndStore env lower upper' c isC =
     (case uploadDiff env isC lr ur (mountedState lower upper' c) of
        (ret, st) \<Rightarrow> finished env upper' lr ur ret (ocidesc st) (trace st))"
  using assms
  by (simp add: diffAndStore_def WithTempMount_def finished_def mountedState_def emit_def
      split: prod.splits option.splits)

lemmas run = uploadDiff_def writerBody_def truncateWriter_def writeStream_def commitWriter_def
  reconcileLabel_def deferredCleanup_def emit_def Let_def finished_def mountedState_def

lemmas calls_defs = reference_def openCalls_def truncateCalls_def cleanupCalls_def
  openedStream_def compressorCall_def streamCalls_def commitLabels_def

lemma path_writer:
  assumes "mount_All env LowerSet lower = Inr lr" "mount_All env UpperSet upper' = Inr ur"
    "store_Writer env (reference env c) (MediaType c) = Some e"
  shows "diffAndStore env lower upper' c isC =
     finished env upper' lr ur (Some (Wrap e ''failed to open writer'')) emptyDesc
       ([EvMount LowerSet lower, EvMount UpperSet upper'] @ openCalls env c)"
  using assms
  by (cases "Reference c = ''''") (simp_all add: diffAndStore_mounted run calls_defs)

lemma path_truncate:
  assumes "mount_All env LowerSet lower = Inr lr" "mount_All env UpperSet upper' = Inr ur"
    "store_Writer env (reference env c) (MediaType c) = None"
    "Reference c \<noteq> ''''" "cw_Truncate env 0 = Some e"
  shows "diffAndStore env lower upper' c isC =
     finished env upper' lr ur (Some e) emptyDesc
       ([EvMount LowerSet lower, EvMount UpperSet upper'] @
        openCalls env c @ truncateCalls c @ cleanupCalls env c)"
  using assms by (simp add: diffAndStore_mounted run calls_defs)

lemma path_compressor:
  assumes "reachesStream env lower upper' c lr ur" "isC" "openedStream env c = Inl e"
  shows "diffAndStore env lower upper' c isC =
     finished env upper' lr ur (Some (Wrap e ''failed to get compressed stream'')) emptyDesc
       ([EvMount LowerSet lower, EvMount UpperSet upper'] @
        openCalls env c @ truncateCalls c @ [compressorCall c] @ cleanupCalls env c)"
proof -
  from assms(1) have m: "mount_All env LowerSet lower = Inr lr" "mount_All env UpperSet upper' = Inr ur"
    and w: "store_Writer env (reference env c) (MediaType c) = None"
    and t: "Reference c = '''' \<or> cw_Truncate env 0 = None"
    by (simp_all add: reachesStream_def)
  show ?thesis
  proof (cases "Reference c = ''''")
    case True
    with m w assms(2,3) show ?thesis
      by (cases "Compressor c"; cases "store_Abort env (uniqueRef env)")
         (simp_all add: diffAndStore_mounted run calls_defs)
  next
    case False
    with t have "cw_Truncate env 0 = None" by simp
    with False m w assms(2,3) show ?thesis
      by (cases "Compressor c") (simp_all add: diffAndStore_mounted run calls_defs)
  qed
qed

lemmas path_run = diffAndStore_mounted run calls_defs writtenBytes_def

lemma path_writediff:
  assumes "reachesStream env lower upper' c lr ur"
    "isC \<longrightarrow> openedStream env c = Inr compressed"
    "archive_WriteDiff env lr ur = (raw, Some e)"
  shows "diffAndStore env lower upper' c isC =
     finished env upper' lr ur
       (Some (Wrap e (if isC then ''failed to write compressed diff'' else ''failed to write diff'')))
       emptyDesc
       ([EvMount LowerSet lower, EvMount UpperSet upper'] @
        openCalls env c @ truncateCalls c @ streamCalls c isC lr ur @ cleanupCalls env c)"
  using assms unfolding reachesStream_def
  by (cases "Reference c = ''''"; cases isC; cases "Compressor c";
      cases "store_Abort env (uniqueRef env)")
     (simp_all add: path_run)

lemma path_commit:
  assumes "reachesCommit env lower upper' c isC lr ur raw compressed"
    "cw_Commit env 0 (cw_Digest env (writtenBytes isC compressed raw))
       (commitLabels env c isC raw) = Some e"
    "\<not> IsAlreadyExists e"
  shows "diffAndStore env lower upper' c isC =
     finished env upper' lr ur (Some (Wrap e ''failed to commit'')) emptyDesc
       ([EvMount LowerSet lower, EvMount UpperSet upper'] @
        openCalls env c @ truncateCalls c @ streamCalls c isC lr ur @
        [EvDigest,
         EvCommit 0 (cw_Digest env (writtenBytes isC compressed raw)) (commitLabels env c isC raw)] @
        cleanupCalls env c)"
  using assms unfolding reachesCommit_def reachesStream_def
  by (cases "Reference c = ''''"; cases isC; cases "Compressor c";
      cases "store_Abort env (uniqueRef env)")
     (simp_all add: path_run)

lemma path_info:
  assumes "reachesCommit env lower upper' c isC lr ur raw compressed"
    "committed env (cw_Digest env (writtenBytes isC compressed raw)) (commitLabels env c isC raw)"
    "store_Info env (cw_Digest env (writtenBytes isC compressed raw)) = Inl e"
  shows "diffAndStore env lower upper' c isC =
     finished env upper' lr ur (Some (Wrap e ''failed to get info from content store'')) emptyDesc
       ([EvMount LowerSet lower, EvMount UpperSet upper'] @
        openCalls env c @ truncateCalls c @ streamCalls c isC lr ur @
        [EvDigest,
         EvCommit 0 (cw_Digest env (writtenBytes isC compressed raw)) (commitLabels env c isC raw),
         EvInfo (cw_Digest env (writtenBytes isC compressed raw))])"
  using assms unfolding reachesCommit_def reachesStream_def committed_def
  by (cases "Reference c = ''''"; cases isC; cases "Compressor c";
      cases "cw_Commit env 0 (cw_Digest env (writtenBytes isC compressed raw))
               (commitLabels env c isC raw)")
     (simp_all add: path_run)

lemma path_update:
  assumes "reachesCommit env lower upper' c isC lr ur raw compressed"
    "committed env (cw_Digest env (writtenBytes isC compressed raw)) (commitLabels env c isC raw)"
    "store_Info env (cw_Digest env (writtenBytes isC compressed raw)) = Inr info"
    "storedLabel info = None"
    "store_Update env (patchedInfo info (labelOf (commitLabels env c isC raw) uncompressed))
       [''labels.'' @ uncompressed] = Some e"
  shows "diffAndStore env lower upper' c isC =
     finished env upper' lr ur (Some (Wrap e ''error setting uncompressed label'')) emptyDesc
       ([EvMount LowerSet lower, EvMount UpperSet upper'] @
        openCalls env c @ truncateCalls c @ streamCalls c isC lr ur @
        [EvDigest,
         EvCommit 0 (cw_Digest env (writtenBytes isC compressed raw)) (commitLabels env c isC raw),
         EvInfo (cw_Digest env (writtenBytes isC compressed raw)),
         EvUpdate (patchedInfo info (labelOf (commitLabels env c isC raw) uncompressed))
           [''labels.'' @ uncompressed]])"
  using assms unfolding reachesCommit_def reachesStream_def committed_def
  by (cases "Reference c = ''''"; cases isC; cases "Compressor c";
      cases "cw_Commit env 0 (cw_Digest env (writtenBytes isC compressed raw))
               (commitLabels env c isC raw)";
      cases "info_Labels info")
     (simp_all add: path_run storedLabel_def patchedInfo_def)

lemma path_patched:
  assumes "reachesCommit env lower upper' c isC lr ur raw compressed"
    "committed env (cw_Digest env (writtenBytes isC compressed raw)) (commitLabels env c isC raw)"
    "store_Info env (cw_Digest env (writtenBytes isC compressed raw)) = Inr info"
    "storedLabel info = None"
    "store_Update env (patchedInfo info (labelOf (commitLabels env c isC raw) uncompressed))
       [''labels.'' @ uncompressed] = None"
  shows "diffAndStore env lower upper' c isC =
     finished env upper' lr ur None (descOf c info)
       ([EvMount LowerSet lower, EvMount UpperSet upper'] @
        openCalls env c @ truncateCalls c @ streamCalls c isC lr ur @
        [EvDigest,
         EvCommit 0 (cw_Digest env (writtenBytes isC compressed raw)) (commitLabels env c isC raw),
         EvInfo (cw_Digest env (writtenBytes isC compressed raw)),
         EvUpdate (patchedInfo info (labelOf (commitLabels env c isC raw) uncompressed))
           [''labels.'' @ uncompressed]])"
  using assms unfolding reachesCommit_def reachesStream_def committed_def
  by (cases "Reference c = ''''"; cases isC; cases "Compressor c";
      cases "cw_Commit env 0 (cw_Digest env (writtenBytes isC compressed raw))
               (commitLabels env c isC raw)";
      cases "info_Labels info")
     (simp_all add: path_run storedLabel_def patchedInfo_def descOf_def)

lemma path_kept:
  assumes "reachesCommit env lower upper' c isC lr ur raw compressed"
    "committed env (cw_Digest env (writtenBytes isC compressed raw)) (commitLabels env c isC raw)"
    "store_Info env (cw_Digest env (writtenBytes isC compressed raw)) = Inr info"
    "storedLabel info = Some v"
  shows "diffAndStore env lower upper' c isC =
     finished env upper' lr ur None (descOf c info)
       ([EvMount LowerSet lower, EvMount UpperSet upper'] @
        openCalls env c @ truncateCalls c @ streamCalls c isC lr ur @
        [EvDigest,
         EvCommit 0 (cw_Digest env (writtenBytes isC compressed raw)) (commitLabels env c isC raw),
         EvInfo (cw_Digest env (writtenBytes isC compressed raw))])"
  using assms unfolding reachesCommit_def reachesStream_def committed_def
  by (cases "Reference c = ''''"; cases isC; cases "Compressor c";
      cases "cw_Commit env 0 (cw_Digest env (writtenBytes isC compressed raw))
               (commitLabels env c isC raw)";
      cases "info_Labels info")
     (simp_all add: path_run storedLabel_def descOf_def)

lemma diffAndStore_paths
  [case_names lower_mount upper_mount writer truncate compressor writediff commit info update
     patched kept]:
  obtains
    (lower_mount) e where "mount_All env LowerSet lower = Inl e"
  | (upper_mount) lr e where
      "mount_All env LowerSet lower = Inr lr" "mount_All env UpperSet upper' = Inl e"
  | (writer) lr ur e where
      "mount_All env LowerSet lower = Inr lr" "mount_All env UpperSet upper' = Inr ur"
      "store_Writer env (reference env c) (MediaType c) = Some e"
  | (truncate) lr ur e where
      "mount_All env LowerSet lower = Inr lr" "mount_All env UpperSet upper' = Inr ur"
      "store_Writer env (reference env c) (MediaType c) = None"
      "Reference c \<noteq> ''''" "cw_Truncate env 0 = Some e"
  | (compressor) lr ur e where
      "reachesStream env lower upper' c lr ur" "isC" "openedStream env c = Inl e"
  | (writediff) lr ur compressed raw e where
      "reachesStream env lower upper' c lr ur" "isC \<longrightarrow> openedStream env c = Inr compressed"
      "archive_WriteDiff env lr ur = (raw, Some e)"
  | (commit) lr ur raw compressed e where
      "reachesCommit env lower upper' c isC lr ur raw compressed"
      "cw_Commit env 0 (cw_Digest env (writtenBytes isC compressed raw))
         (commitLabels env c isC raw) = Some e"
      "\<not> IsAlreadyExists e"
  | (info) lr ur raw compressed e where
      "reachesCommit env lower upper' c isC lr ur raw compressed"
      "committed env (cw_Digest env (writtenBytes isC compressed raw)) (commitLabels env c isC raw)"
      "store_Info env (cw_Digest env (writtenBytes isC compressed raw)) = Inl e"
  | (update) lr ur raw compressed info e where
      "reachesCommit env lower upper' c isC lr ur raw compressed"
      "committed env (cw_Digest env (writtenBytes isC compressed raw)) (commitLabels env c isC raw)"
      "store_Info env (cw_Digest env (writtenBytes isC compressed raw)) = Inr info"
      "storedLabel info = None"
      "store_Update env (patchedInfo info (labelOf (commitLabels env c isC raw) uncompressed))
         [''labels.'' @ uncompressed] = Some e"
  | (patched) lr ur raw compressed info where
      "reachesCommit env lower upper' c isC lr ur raw compressed"
      "committed env (cw_Digest env (writtenBytes isC compressed raw)) (commitLabels env c isC raw)"
      "store_Info env (cw_Digest env (writtenBytes isC compressed raw)) = Inr info"
      "storedLabel info = None"
      "store_Update env (patchedInfo info (labelOf (commitLabels env c isC raw) uncompressed))
         [''labels.'' @ uncompressed] = None"
  | (kept) lr ur raw compressed info v where
      "reachesCommit env lower upper' c isC lr ur raw compressed"
      "committed env (cw_Digest env (writtenBytes isC compressed raw)) (commitLabels env c isC raw)"
      "store_Info env (cw_Digest env (writtenBytes isC compressed raw)) = Inr info"
      "storedLabel info = Some v"
proof (cases "mount_All env LowerSet lower")
  case (Inl e)
  then show ?thesis by (rule lower_mount)
next
  case lo: (Inr lr)
  show ?thesis
  proof (cases "mount_All env UpperSet upper'")
    case (Inl e)
    with lo show ?thesis by (rule upper_mount)
  next
    case up: (Inr ur)
    show ?thesis
    proof (cases "store_Writer env (reference env c) (MediaType c)")
      case (Some e)
      with lo up show ?thesis by (rule writer)
    next
      case wr: None
      show ?thesis
      proof (cases "Reference c \<noteq> '''' \<and> cw_Truncate env 0 \<noteq> None")
        case True
        then obtain e where "Reference c \<noteq> ''''" "cw_Truncate env 0 = Some e" by auto
        with lo up wr show ?thesis by (rule truncate)
      next
        case False
        with lo up wr have rs: "reachesStream env lower upper' c lr ur"
          by (auto simp: reachesStream_def)
        show ?thesis
        proof (cases "isC \<and> (\<exists>e. openedStream env c = Inl e)")
          case True
          then obtain e where "isC" "openedStream env c = Inl e" by auto
          with rs show ?thesis by (rule compressor)
        next
          case False
          then obtain compressed where op: "isC \<longrightarrow> openedStream env c = Inr compressed"
            by (cases "openedStream env c") auto
          obtain raw werr where wd: "archive_WriteDiff env lr ur = (raw, werr)"
            by (cases "archive_WriteDiff env lr ur")
          show ?thesis
          proof (cases werr)
            case (Some e)
            with rs op wd show ?thesis by (auto intro: writediff)
          next
            case None
            with rs op wd have rc: "reachesCommit env lower upper' c isC lr ur raw compressed"
              by (simp add: reachesCommit_def)
            let ?dgst = "cw_Digest env (writtenBytes isC compressed raw)"
            let ?ls = "commitLabels env c isC raw"
            show ?thesis
            proof (cases "committed env ?dgst ?ls")
              case False
              then obtain e where "cw_Commit env 0 ?dgst ?ls = Some e" "\<not> IsAlreadyExists e"
                by (auto simp: committed_def split: option.splits)
              with rc show ?thesis by (rule commit)
            next
              case cm: True
              show ?thesis
              proof (cases "store_Info env ?dgst")
                case (Inl e)
                with rc cm show ?thesis by (rule info)
              next
                case inf: (Inr i)
                show ?thesis
                proof (cases "storedLabel i")
                  case (Some v)
                  with rc cm inf show ?thesis by (rule kept)
                next
                  case ab: None
                  show ?thesis
                  proof (cases "store_Update env (patchedInfo i (labelOf ?ls uncompressed))
                                  [''labels.'' @ uncompressed]")
                    case (Some e)
                    with rc cm inf ab show ?thesis by (rule update)
                  next
                    case None
                    with rc cm inf ab show ?thesis by (rule patched)
                  qed
                qed
              qed
            qed
          qed
        qed
      qed
    qed
  qed
qed

text \<open>The same case analysis, with the outcome of Compare in every case.\<close>

lemma diffAndStore_outcomes
  [case_names lower_mount upper_mount writer truncate compressor writediff commit info update
     patched kept]:
  obtains
    (lower_mount) e where
      "mount_All env LowerSet lower = Inl e"
      "diffAndStore env lower upper' c isC =
         \<lparr>ret_d = emptyDesc, ret_err = Some (Wrap e ''failed to mount''), upper_after = upper',
          calls = [EvMount LowerSet lower]\<rparr>"
  | (upper_mount) lr e where
      "mount_All env LowerSet lower = Inr lr" "mount_All env UpperSet upper' = Inl e"
      "diffAndStore env lower upper' c isC =
         \<lparr>ret_d = emptyDesc,
          ret_err = unmountResult (mount_UnmountAll env LowerSet lr)
                      (Some (Wrap e ''failed to mount'')),
          upper_after = upper',
          calls = [EvMount LowerSet lower, EvMount UpperSet upper', EvUnmount LowerSet lr]\<rparr>"
  | (writer) lr ur e where
      "mount_All env LowerSet lower = Inr lr" "mount_All env UpperSet upper' = Inr ur"
      "store_Writer env (reference env c) (MediaType c) = Some e"
      "diffAndStore env lower upper' c isC =
         finished env upper' lr ur (Some (Wrap e ''failed to open writer'')) emptyDesc
           ([EvMount LowerSet lower, EvMount UpperSet upper'] @ openCalls env c)"
  | (truncate) lr ur e where
      "mount_All env LowerSet lower = Inr lr" "mount_All env UpperSet upper' = Inr ur"
      "store_Writer env (reference env c) (MediaType c) = None"
      "Reference c \<noteq> ''''" "cw_Truncate env 0 = Some e"
      "diffAndStore env lower upper' c isC =
         finished env upper' lr ur (Some e) emptyDesc
           ([EvMount LowerSet lower, EvMount UpperSet upper'] @
            openCalls env c @ truncateCalls c @ cleanupCalls env c)"
  | (compressor) lr ur e where
      "reachesStream env lower upper' c lr ur" "isC" "openedStream env c = Inl e"
      "diffAndStore env lower upper' c isC =
         finished env upper' lr ur (Some (Wrap e ''failed to get compressed stream'')) emptyDesc
           ([EvMount LowerSet lower, EvMount UpperSet upper'] @
            openCalls env c @ truncateCalls c @ [compressorCall c] @ cleanupCalls env c)"
  | (writediff) lr ur compressed raw e where
      "reachesStream env lower upper' c lr ur" "isC \<longrightarrow> openedStream env c = Inr compressed"
      "archive_WriteDiff env lr ur = (raw, Some e)"
      "diffAndStore env lower upper' c isC =
         finished env upper' lr ur
           (Some (Wrap e (if isC then ''failed to write compressed diff''
                          else ''failed to write diff'')))
           emptyDesc
           ([EvMount LowerSet lower, EvMount UpperSet upper'] @
            openCalls env c @ truncateCalls c @ streamCalls c isC lr ur @ cleanupCalls env c)"
  | (commit) lr ur raw compressed e where
      "reachesCommit env lower upper' c isC lr ur raw compressed"
      "cw_Commit env 0 (cw_Digest env (writtenBytes isC compressed raw))
         (commitLabels env c isC raw) = Some e"
      "\<not> IsAlreadyExists e"
      "diffAndStore env lower upper' c isC =
         finished env upper' lr ur (Some (Wrap e ''failed to commit'')) emptyDesc
           ([EvMount LowerSet lower, EvMount UpperSet upper'] @
            openCalls env c @ truncateCalls c @ streamCalls c isC lr ur @
            [EvDigest,
             EvCommit 0 (cw_Digest env (writtenBytes isC compressed raw))
               (commitLabels env c isC raw)] @
            cleanupCalls env c)"
  | (info) lr ur raw compressed e where
      "reachesCommit env lower upper' c isC lr ur raw compressed"
      "committed env (cw_Digest env (writtenBytes isC compressed raw)) (commitLabels env c isC raw)"
      "store_Info env (cw_Digest env (writtenBytes isC compressed raw)) = Inl e"
      "diffAndStore env lower upper' c isC =
         finished env upper' lr ur (Some (Wrap e ''failed to get info from content store''))
           emptyDesc
           ([EvMount LowerSet lower, EvMount UpperSet upper'] @
            openCalls env c @ truncateCalls c @ streamCalls c isC lr ur @
            [EvDigest,
             EvCommit 0 (cw_Digest env (writtenBytes isC compressed raw))
               (commitLabels env c isC raw),
             EvInfo (cw_Digest env (writtenBytes isC compressed raw))])"
  | (update) lr ur raw compressed info e where
      "reachesCommit env lower upper' c isC lr ur raw compressed"
      "committed env (cw_Digest env (writtenBytes isC compressed raw)) (commitLabels env c isC raw)"
      "store_Info env (cw_Digest env (writtenBytes isC compressed raw)) = Inr info"
      "storedLabel info = None"
      "store_Update env (patchedInfo info (labelOf (commitLabels env c isC raw) uncompressed))
         [''labels.'' @ uncompressed] = Some e"
      "diffAndStore env lower upper' c isC =
         finished env upper' lr ur (Some (Wrap e ''error setting uncompressed label'')) emptyDesc
           ([EvMount LowerSet lower, EvMount UpperSet upper'] @
            openCalls env c @ truncateCalls c @ streamCalls c isC lr ur @
            [EvDigest,
             EvCommit 0 (cw_Digest env (writtenBytes isC compressed raw))
               (commitLabels env c isC raw),
             EvInfo (cw_Digest env (writtenBytes isC compressed raw)),
             EvUpdate (patchedInfo info (labelOf (commitLabels env c isC raw) uncompressed))
               [''labels.'' @ uncompressed]])"
  | (patched) lr ur raw compressed info where
      "reachesCommit env lower upper' c isC lr ur raw compressed"
      "committed env (cw_Digest env (writtenBytes isC compressed raw)) (commitLabels env c isC raw)"
      "store_Info env (cw_Digest env (writtenBytes isC compressed raw)) = Inr info"
      "storedLabel info = None"
      "store_Update env (patchedInfo info (labelOf (commitLabels env c isC raw) uncompressed))
         [''labels.'' @ uncompressed] = None"
      "diffAndStore env lower upper' c isC =
         finished env upper' lr ur None (descOf c info)
           ([EvMount LowerSet lower, EvMount UpperSet upper'] @
            openCalls env c @ truncateCalls c @ streamCalls c isC lr ur @
            [EvDigest,
             EvCommit 0 (cw_Digest env (writtenBytes isC compressed raw))
               (commitLabels env c isC raw),
             EvInfo (cw_Digest env (writtenBytes isC compressed raw)),
             EvUpdate (patchedInfo info (labelOf (commitLabels env c isC raw) uncompressed))
               [''labels.'' @ uncompressed]])"
  | (kept) lr ur raw compressed info v where
      "reachesCommit env lower upper' c isC lr ur raw compressed"
      "committed env (cw_Digest env (writtenBytes isC compressed raw)) (commitLabels env c isC raw)"
      "store_Info env (cw_Digest env (writtenBytes isC compressed raw)) = Inr info"
      "storedLabel info = Some v"
      "diffAndStore env lower upper' c isC =
         finished env upper' lr ur None (descOf c info)
           ([EvMount LowerSet lower, EvMount UpperSet upper'] @
            openCalls env c @ truncateCalls c @ streamCalls c isC lr ur @
            [EvDigest,
             EvCommit 0 (cw_Digest env (writtenBytes isC compressed raw))
               (commitLabels env c isC raw),
             EvInfo (cw_Digest env (writtenBytes isC compressed raw))])"
proof (cases rule: diffAndStore_paths
    [where env = env and lower = lower and upper' = upper' and c = c and isC = isC])
  case (lower_mount e)
  then show ?thesis using path_lower_mount that(1) by blast
next
  case (upper_mount lr e)
  then show ?thesis using path_upper_mount that(2) by blast
next
  case (writer lr ur e)
  then show ?thesis using path_writer that(3) by blast
next
  case (truncate lr ur e)
  then show ?thesis using path_truncate that(4) by blast
next
  case (compressor lr ur e)
  then show ?thesis using path_compressor that(5) by blast
next
  case (writediff lr ur compressed raw e)
  then show ?thesis using path_writediff that(6) by blast
next
  case (commit lr ur raw compressed e)
  then show ?thesis using path_commit that(7) by blast
next
  case (info lr ur raw compressed e)
  then show ?thesis using path_info that(8) by blast
next
  case (update lr ur raw compressed info e)
  then show ?thesis using path_update that(9) by blast
next
  case (patched lr ur raw compressed info)
  then show ?thesis using path_patched that(10) by blast
next
  case (kept lr ur raw compressed info v)
  then show ?thesis using path_kept that(11) by blast
qed

subsection \<open>Compare before the mounts\<close>

lemma Compare_opts_fail:
  "applyOpts opts zeroConfig = Inl e \<Longrightarrow>
   Compare env lower upper opts =
     \<lparr>ret_d = emptyDesc, ret_err = Some e, upper_after = upper, calls = []\<rparr>"
  by (simp add: Compare_def)

lemma Compare_config_fail:
  "applyOpts opts zeroConfig = Inr c0 \<Longrightarrow> resolveMediaType c0 = Inl e \<Longrightarrow>
   Compare env lower upper opts =
     \<lparr>ret_d = emptyDesc, ret_err = Some e, upper_after = rewriteUpper 0 upper, calls = []\<rparr>"
  by (simp add: Compare_def)

lemma Compare_resolved:
  "applyOpts opts zeroConfig = Inr c0 \<Longrightarrow> resolveMediaType c0 = Inr (c, isC) \<Longrightarrow>
   Compare env lower upper opts = diffAndStore env lower (rewriteUpper 0 upper) c isC"
  by (simp add: Compare_def)

lemma resolveMediaType_fields:
  assumes "resolveMediaType c0 = Inr (c, isC)"
  shows "Reference c = Reference c0" "Labels c = Labels c0" "Compressor c = Compressor c0"
  using assms by (auto simp: resolveMediaType_def Let_def split: if_splits option.splits)

lemma diffAndStore_error_emptyDesc:
  "ret_err (diffAndStore env lower upper' c isC) \<noteq> None \<Longrightarrow>
   ret_d (diffAndStore env lower upper' c isC) = emptyDesc"
  by (simp add: diffAndStore_def split: prod.splits option.splits)

subsection \<open>Facts about the calls\<close>

lemmas calls_simps = finished_def calls_defs

lemma unmountResult_error [simp]: "unmountResult u (Some e) \<noteq> None"
  by (simp add: unmountResult_def split: option.splits)

lemma unmountResult_eq_None [simp]: "(unmountResult u ret = None) = (u = None \<and> ret = None)"
  by (simp add: unmountResult_def split: option.splits)

lemma sink_of_isCompressed:
  assumes "EvWriteDiff s lr ur \<in> set (calls (diffAndStore env lower upper' c isC))"
  shows "(s = CompressorAndDigester) = isC"
  using assms
  by (cases rule: diffAndStore_outcomes
        [where env = env and lower = lower and upper' = upper' and c = c and isC = isC])
     (auto simp: calls_simps split: if_splits option.splits)

lemma fresh_never_truncates:
  assumes "Reference c = ''''"
  shows "EvTruncate n \<notin> set (calls (diffAndStore env lower upper' c isC))"
  using assms
  by (cases rule: diffAndStore_outcomes
        [where env = env and lower = lower and upper' = upper' and c = c and isC = isC])
     (auto simp: calls_simps split: if_splits option.splits)

lemma reused_truncates_first:
  assumes "Reference c \<noteq> ''''"
    and "EvWriter ref mt \<in> set (calls (diffAndStore env lower upper' c isC))"
    and "store_Writer env ref mt = None"
  shows "nextCall (EvWriter ref mt) (calls (diffAndStore env lower upper' c isC)) = Some (EvTruncate 0) \<and>
         (\<forall>s lr ur. EvWriteDiff s lr ur \<notin>
            set (takeWhile (\<lambda>e. e \<noteq> EvTruncate 0) (calls (diffAndStore env lower upper' c isC))))"
  using assms
  by (cases rule: diffAndStore_outcomes
        [where env = env and lower = lower and upper' = upper' and c = c and isC = isC])
     (auto simp: calls_simps split: if_splits option.splits)

subsection \<open>Facts about readonlyOverlay\<close>

lemma keptOption_withUpper: "keptOption o1 \<Longrightarrow> keptOption (withUpper upper o1)"
  by (simp add: keptOption_def withUpper_def HasPrefix_def)

lemma readonlyOverlay_kept: "o1 \<in> set (readonlyOverlay opt) \<Longrightarrow> keptOption o1"
  by (auto simp: readonlyOverlay_eq keptOption_withUpper split: if_splits)

lemma all_kept_fixed:
  assumes "\<forall>o1 \<in> set opt. keptOption o1"
  shows "readonlyOverlay opt = opt"
proof -
  from assms have "filter (\<lambda>o1. HasPrefix o1 ''upperdir='') opt = []"
    by (auto simp: keptOption_def filter_empty_conv)
  then have "upperValue opt = ''''"
    by (simp add: upperValue_def)
  moreover from assms have "filter keptOption opt = opt"
    by (simp add: filter_id_conv)
  ultimately show ?thesis
    by (simp add: readonlyOverlay_eq)
qed

subsection \<open>Mounts and cleanup\<close>

lemma mounts_passed:
  assumes "EvMount which ms \<in> set (calls (diffAndStore env lower upper' c isC))"
  shows "ms = (case which of LowerSet \<Rightarrow> lower | UpperSet \<Rightarrow> upper')"
  using assms
  by (cases rule: diffAndStore_outcomes
        [where env = env and lower = lower and upper' = upper' and c = c and isC = isC])
     (auto simp: calls_simps split: if_splits option.splits)

lemma upper_after_diffAndStore: "upper_after (diffAndStore env lower upper' c isC) = upper'"
  by (simp add: diffAndStore_def split: prod.splits option.splits)









subsection \<open>The commit and the label\<close>

lemma dedupAsSuccess_selectors [simp]:
  "uniqueRef (dedupAsSuccess env) = uniqueRef env"
  "mount_All (dedupAsSuccess env) = mount_All env"
  "mount_UnmountAll (dedupAsSuccess env) = mount_UnmountAll env"
  "store_Writer (dedupAsSuccess env) = store_Writer env"
  "cw_Truncate (dedupAsSuccess env) = cw_Truncate env"
  "compression_CompressStream (dedupAsSuccess env) = compression_CompressStream env"
  "archive_WriteDiff (dedupAsSuccess env) = archive_WriteDiff env"
  "digest_SHA256 (dedupAsSuccess env) = digest_SHA256 env"
  "cw_Digest (dedupAsSuccess env) = cw_Digest env"
  "store_Info (dedupAsSuccess env) = store_Info env"
  "store_Update (dedupAsSuccess env) = store_Update env"
  "store_Abort (dedupAsSuccess env) = store_Abort env"
  by (simp_all add: dedupAsSuccess_def)

lemma phases_dedupAsSuccess:
  "truncateWriter (dedupAsSuccess env) = truncateWriter env"
  "writeStream (dedupAsSuccess env) = writeStream env"
  "reconcileLabel (dedupAsSuccess env) = reconcileLabel env"
  "deferredCleanup (dedupAsSuccess env) = deferredCleanup env"
  by (simp_all add: fun_eq_iff truncateWriter_def writeStream_def reconcileLabel_def
      deferredCleanup_def Let_def
      cong: option.case_cong sum.case_cong prod.case_cong if_cong)

lemma commitWriter_dedupAsSuccess: "commitWriter (dedupAsSuccess env) = commitWriter env"
  by (auto simp: fun_eq_iff commitWriter_def dedupAsSuccess_def Let_def split: option.splits)

lemma uploadDiff_dedupAsSuccess: "uploadDiff (dedupAsSuccess env) = uploadDiff env"
  by (simp add: fun_eq_iff uploadDiff_def writerBody_def phases_dedupAsSuccess
      commitWriter_dedupAsSuccess Let_def
      cong: option.case_cong prod.case_cong step.case_cong if_cong)

lemma Compare_dedupAsSuccess:
  "Compare (dedupAsSuccess env) lower upper opts = Compare env lower upper opts"
  by (simp add: Compare_def diffAndStore_def WithTempMount_def uploadDiff_dedupAsSuccess
      cong: sum.case_cong prod.case_cong option.case_cong)

lemma commit_answer:
  assumes "EvCommit n d ls \<in> set (calls (diffAndStore env lower upper' c isC))"
    and "cw_Commit env n d ls = Some e"
  shows "(IsAlreadyExists e \<longrightarrow>
            nextCall (EvCommit n d ls) (calls (diffAndStore env lower upper' c isC)) =
              Some (EvInfo d) \<and>
            (\<forall>info. store_Info env d = Inr info \<and>
                    (storedLabel info \<noteq> None \<or>
                     store_Update env (patchedInfo info (labelOf ls uncompressed))
                       [''labels.'' @ uncompressed] = None) \<and>
                    (\<forall>which root.
                       EvUnmount which root \<in> set (calls (diffAndStore env lower upper' c isC)) \<longrightarrow>
                       mount_UnmountAll env which root = None) \<longrightarrow>
               ret_err (diffAndStore env lower upper' c isC) = None \<and>
               ret_d (diffAndStore env lower upper' c isC) = descOf c info)) \<and>
         (\<not> IsAlreadyExists e \<longrightarrow>
            ret_err (diffAndStore env lower upper' c isC) \<noteq> None \<and>
            ret_d (diffAndStore env lower upper' c isC) = emptyDesc \<and>
            (\<forall>d'. EvInfo d' \<notin> set (calls (diffAndStore env lower upper' c isC))))"
  using assms
  by (cases rule: diffAndStore_outcomes
        [where env = env and lower = lower and upper' = upper' and c = c and isC = isC])
     (auto simp: calls_simps committed_def split: if_splits option.splits)

lemma writer_media_type:
  assumes "EvWriter ref mt \<in> set (calls (diffAndStore env lower upper' c isC))"
  shows "mt = MediaType c"
  using assms
  by (cases rule: diffAndStore_outcomes
        [where env = env and lower = lower and upper' = upper' and c = c and isC = isC])
     (auto simp: calls_simps split: if_splits option.splits)

lemma commit_answer_Compare:
  assumes "EvCommit n d ls \<in> set (calls (Compare env lower upper opts))"
    and "cw_Commit env n d ls = Some e"
  shows "(IsAlreadyExists e \<longrightarrow>
            nextCall (EvCommit n d ls) (calls (Compare env lower upper opts)) = Some (EvInfo d) \<and>
            (\<forall>info. store_Info env d = Inr info \<and>
                    (storedLabel info \<noteq> None \<or>
                     store_Update env (patchedInfo info (labelOf ls uncompressed))
                       [''labels.'' @ uncompressed] = None) \<and>
                    (\<forall>which root.
                       EvUnmount which root \<in> set (calls (Compare env lower upper opts)) \<longrightarrow>
                       mount_UnmountAll env which root = None) \<longrightarrow>
               ret_err (Compare env lower upper opts) = None \<and>
               desc_Digest (ret_d (Compare env lower upper opts)) = info_Digest info \<and>
               desc_Size (ret_d (Compare env lower upper opts)) = info_Size info \<and>
               (\<forall>ref mt. EvWriter ref mt \<in> set (calls (Compare env lower upper opts)) \<longrightarrow>
                  desc_MediaType (ret_d (Compare env lower upper opts)) = mt))) \<and>
         (\<not> IsAlreadyExists e \<longrightarrow>
            ret_err (Compare env lower upper opts) \<noteq> None \<and>
            ret_d (Compare env lower upper opts) = emptyDesc \<and>
            (\<forall>d'. EvInfo d' \<notin> set (calls (Compare env lower upper opts))))"
proof (cases "applyOpts opts zeroConfig")
  case (Inl e')
  with assms(1) show ?thesis by (simp add: Compare_opts_fail)
next
  case opts: (Inr c0)
  show ?thesis
  proof (cases "resolveMediaType c0")
    case (Inl e')
    with opts assms(1) show ?thesis by (simp add: Compare_config_fail)
  next
    case (Inr p)
    then obtain c isC where res: "resolveMediaType c0 = Inr (c, isC)" by (cases p) simp
    let ?r = "diffAndStore env lower (rewriteUpper 0 upper) c isC"
    have eq: "Compare env lower upper opts = ?r"
      by (rule Compare_resolved [OF opts res])
    from assms(1) have ev: "EvCommit n d ls \<in> set (calls ?r)"
      by (simp add: eq)
    note ca = commit_answer [OF ev assms(2)]
    have mt: "mt = MediaType c" if "EvWriter ref mt \<in> set (calls ?r)" for ref mt
      using that by (rule writer_media_type)
    show ?thesis
    proof (cases "IsAlreadyExists e")
      case False
      with ca show ?thesis by (simp add: eq)
    next
      case True
      with ca have nx: "nextCall (EvCommit n d ls) (calls ?r) = Some (EvInfo d)"
        by simp
      have ok: "ret_err ?r = None \<and> ret_d ?r = descOf c info"
        if "store_Info env d = Inr info"
          and "storedLabel info \<noteq> None \<or>
               store_Update env (patchedInfo info (labelOf ls uncompressed))
                 [''labels.'' @ uncompressed] = None"
          and "\<forall>which root. EvUnmount which root \<in> set (calls ?r) \<longrightarrow>
                 mount_UnmountAll env which root = None"
        for info
        using ca True that by blast
      show ?thesis
        unfolding eq using True nx ok mt by (auto simp: descOf_def)
    qed
  qed
qed

lemma reconcile_after_commit:
  assumes "EvCommit n d ls \<in> set (calls (diffAndStore env lower upper' c isC))"
    and "case cw_Commit env n d ls of None \<Rightarrow> True | Some e \<Rightarrow> IsAlreadyExists e"
  shows "nextCall (EvCommit n d ls) (calls (diffAndStore env lower upper' c isC)) = Some (EvInfo d) \<and>
         (\<forall>e. store_Info env d = Inl e \<longrightarrow>
            (\<forall>i fs. EvUpdate i fs \<notin> set (calls (diffAndStore env lower upper' c isC)))) \<and>
         (\<forall>info. store_Info env d = Inr info \<longrightarrow>
            (storedLabel info \<noteq> None \<longrightarrow>
               (\<forall>i fs. EvUpdate i fs \<notin> set (calls (diffAndStore env lower upper' c isC)))) \<and>
            (storedLabel info = None \<longrightarrow>
               nextCall (EvInfo d) (calls (diffAndStore env lower upper' c isC)) =
                 Some (EvUpdate (patchedInfo info (labelOf ls uncompressed))
                         [''labels.'' @ uncompressed]) \<and>
               (\<forall>i fs. EvUpdate i fs \<in> set (calls (diffAndStore env lower upper' c isC)) \<longrightarrow>
                  i = patchedInfo info (labelOf ls uncompressed) \<and>
                  fs = [''labels.'' @ uncompressed])))"
  using assms
  by (cases rule: diffAndStore_outcomes
        [where env = env and lower = lower and upper' = upper' and c = c and isC = isC])
     (auto simp: calls_simps committed_def split: if_splits option.splits)

lemma compressed_success_labelled:
  assumes "ret_err (diffAndStore env lower upper' c True) = None"
  shows "\<exists>lr ur d ls info.
           EvWriteDiff CompressorAndDigester lr ur \<in> set (calls (diffAndStore env lower upper' c True)) \<and>
           EvCommit 0 d (Some ls) \<in> set (calls (diffAndStore env lower upper' c True)) \<and>
           ls uncompressed = Some (digest_SHA256 env (fst (archive_WriteDiff env lr ur))) \<and>
           store_Info env d = Inr info \<and>
           (storedLabel info \<noteq> None \<longrightarrow>
              (\<forall>i fs. EvUpdate i fs \<notin> set (calls (diffAndStore env lower upper' c True)))) \<and>
           (storedLabel info = None \<longrightarrow>
              EvUpdate (patchedInfo info (digest_SHA256 env (fst (archive_WriteDiff env lr ur))))
                [''labels.'' @ uncompressed]
                \<in> set (calls (diffAndStore env lower upper' c True)) \<and>
              store_Update env
                (patchedInfo info (digest_SHA256 env (fst (archive_WriteDiff env lr ur))))
                [''labels.'' @ uncompressed] = None)"
proof (cases rule: diffAndStore_outcomes
    [where env = env and lower = lower and upper' = upper' and c = c and isC = True])
  case (patched lr ur raw compressed info)
  from patched(1) have wd: "archive_WriteDiff env lr ur = (raw, None)"
    by (simp add: reachesCommit_def)
  show ?thesis
    apply (rule exI [of _ lr], rule exI [of _ ur])
    apply (rule exI [of _ "cw_Digest env (writtenBytes True compressed raw)"])
    apply (rule exI [of _ "(case Labels c of None \<Rightarrow> Map.empty | Some m \<Rightarrow> m)
                             (uncompressed \<mapsto> digest_SHA256 env raw)"])
    apply (rule exI [of _ info])
    using patched(3-5) wd
    apply (simp add: patched(6) calls_simps labelOf_def)
    done
next
  case (kept lr ur raw compressed info v)
  from kept(1) have wd: "archive_WriteDiff env lr ur = (raw, None)"
    by (simp add: reachesCommit_def)
  show ?thesis
    apply (rule exI [of _ lr], rule exI [of _ ur])
    apply (rule exI [of _ "cw_Digest env (writtenBytes True compressed raw)"])
    apply (rule exI [of _ "(case Labels c of None \<Rightarrow> Map.empty | Some m \<Rightarrow> m)
                             (uncompressed \<mapsto> digest_SHA256 env raw)"])
    apply (rule exI [of _ info])
    using kept(3-4) wd
    apply (auto simp add: kept(5) calls_simps labelOf_def split: if_splits option.splits)
    done
qed (use assms in \<open>simp_all add: finished_def\<close>)

subsection \<open>Running Compare on given answers\<close>

lemmas overlay_eval = readonlyOverlay_eq upperValue_def keptOption_def withUpper_def
  HasPrefix_def TrimPrefix_def

lemmas eval_defs = Compare_def diffAndStore_def WithTempMount_def uploadDiff_def writerBody_def
  truncateWriter_def writeStream_def commitWriter_def reconcileLabel_def deferredCleanup_def
  emit_def Let_def resolveMediaType_def zeroConfig_def descOf_def labelOf_def unmountResult_def
  MediaTypeImageLayer_def MediaTypeImageLayerGzip_def uncompressed_def emptyDesc_def
  rewriteUpper.simps sampleEnv_def sampleLabels_def

section \<open>Properties of readonlyOverlay and Compare\<close>

subsection \<open>The overlay rewrite\<close>

text \<open>
  Claim C10. The overlay-option rewrite is idempotent on every option list, also on
  lists with an \<^verbatim>\<open>upperdir=\<close> entry: no entry of its output starts with
  \<^verbatim>\<open>upperdir=\<close> or \<^verbatim>\<open>workdir=\<close>, so the rewrite of its output is that output.
\<close>

theorem C10_readonlyOverlay_idempotent:
  "(\<forall>o1 \<in> set (readonlyOverlay opt).
      \<not> HasPrefix o1 ''upperdir='' \<and> \<not> HasPrefix o1 ''workdir='') \<and>
   readonlyOverlay (readonlyOverlay opt) = readonlyOverlay opt"
proof
  show "\<forall>o1 \<in> set (readonlyOverlay opt).
          \<not> HasPrefix o1 ''upperdir='' \<and> \<not> HasPrefix o1 ''workdir=''"
    using readonlyOverlay_kept [of _ opt] by (auto simp: keptOption_def)
  show "readonlyOverlay (readonlyOverlay opt) = readonlyOverlay opt"
    by (rule all_kept_fixed) (simp add: readonlyOverlay_kept)
qed

theorem C10_readonlyOverlay_idempotent_witness:
  "readonlyOverlay [''upperdir=/a'', ''lowerdir=/b:/c'', ''workdir=/d'', ''index=off''] =
     [''lowerdir=/a:/b:/c'', ''index=off''] \<and>
   \<not> HasPrefix ''lowerdir=/a:/b:/c'' ''upperdir='' \<and>
   \<not> HasPrefix ''index=off'' ''workdir='' \<and>
   readonlyOverlay (readonlyOverlay [''upperdir=/a'', ''lowerdir=/b:/c'', ''workdir=/d'', ''index=off'']) =
     [''lowerdir=/a:/b:/c'', ''index=off'']"
  using C10_readonlyOverlay_idempotent
          [of "[''upperdir=/a'', ''lowerdir=/b:/c'', ''workdir=/d'', ''index=off'']"]
  by (simp add: overlay_eval)

text \<open>
  Claim C5, as amended. The overlay-option rewrite removes every \<^verbatim>\<open>upperdir=\<close> entry
  and every \<^verbatim>\<open>workdir=\<close> entry. When the value of the last \<^verbatim>\<open>upperdir=\<close> entry
  is not empty, it puts that value and a colon before the value of every
  \<^verbatim>\<open>lowerdir=\<close> entry; when there is no \<^verbatim>\<open>upperdir=\<close> entry, or the last one
  has the empty value, the \<^verbatim>\<open>lowerdir=\<close> entries stay as they are. The options
  \<^verbatim>\<open>upperdir=/a\<close>, \<^verbatim>\<open>lowerdir=/b:/c\<close>, \<^verbatim>\<open>workdir=/d\<close> give
  \<^verbatim>\<open>lowerdir=/a:/b:/c\<close> alone. Compare rewrites the options of the mounts of type
  \<^verbatim>\<open>overlay\<close> in the upper mount set, in the caller's slice and in what it mounts, and
  leaves every other mount as it is; the lower mount set is mounted as given.
\<close>

theorem C5_overlay_rewrite:
  "readonlyOverlay opt =
     (if upperValue opt \<noteq> ''''
      then map (withUpper (upperValue opt)) (filter keptOption opt)
      else filter keptOption opt) \<and>
   readonlyOverlay [''upperdir=/a'', ''lowerdir=/b:/c'', ''workdir=/d''] = [''lowerdir=/a:/b:/c''] \<and>
   (\<forall>c0. applyOpts opts zeroConfig = Inr c0 \<longrightarrow>
      upper_after (Compare env lower upper opts) = map overlayMount upper) \<and>
   (\<forall>ms. EvMount UpperSet ms \<in> set (calls (Compare env lower upper opts)) \<longrightarrow>
      ms = map overlayMount upper) \<and>
   (\<forall>ms. EvMount LowerSet ms \<in> set (calls (Compare env lower upper opts)) \<longrightarrow> ms = lower)"
proof -
  have ex: "readonlyOverlay [''upperdir=/a'', ''lowerdir=/b:/c'', ''workdir=/d''] =
              [''lowerdir=/a:/b:/c'']"
    by (simp add: overlay_eval)
  have after: "upper_after (Compare env lower upper opts) = map overlayMount upper"
    if "applyOpts opts zeroConfig = Inr c0" for c0
    using that
    by (cases "resolveMediaType c0")
       (auto simp: Compare_def rewriteUpper_map upper_after_diffAndStore)
  have mounts: "ms = (case which of LowerSet \<Rightarrow> lower | UpperSet \<Rightarrow> map overlayMount upper)"
    if "EvMount which ms \<in> set (calls (Compare env lower upper opts))" for which ms
  proof (cases "applyOpts opts zeroConfig")
    case (Inl e)
    with that show ?thesis by (simp add: Compare_opts_fail)
  next
    case (Inr c0)
    show ?thesis
    proof (cases "resolveMediaType c0")
      case (Inl e)
      with Inr that show ?thesis by (simp add: Compare_config_fail)
    next
      case res: (Inr p)
      obtain c isC where "p = (c, isC)" by (cases p)
      with Inr res that show ?thesis
        using mounts_passed [of which ms env lower "map overlayMount upper" c isC]
        by (simp add: Compare_resolved rewriteUpper_map)
    qed
  qed
  from ex after mounts [of UpperSet] mounts [of LowerSet] show ?thesis
    by (simp add: readonlyOverlay_eq)
qed

theorem C5_overlay_rewrite_witness:
  "readonlyOverlay [''workdir=/w'', ''upperdir=/u'', ''lowerdir=/l2:/l1''] = [''lowerdir=/u:/l2:/l1''] \<and>
   applyOpts [] zeroConfig = Inr zeroConfig \<and>
   upper_after (Compare sampleEnv [] sampleUpper []) =
     [\<lparr>Type = ''overlay'', Source = ''overlay'', Options = [''lowerdir=/u:/l2:/l1'']\<rparr>,
      \<lparr>Type = ''bind'', Source = ''/data'', Options = [''upperdir=/x'', ''rbind'']\<rparr>] \<and>
   EvMount UpperSet
     [\<lparr>Type = ''overlay'', Source = ''overlay'', Options = [''lowerdir=/u:/l2:/l1'']\<rparr>,
      \<lparr>Type = ''bind'', Source = ''/data'', Options = [''upperdir=/x'', ''rbind'']\<rparr>]
     \<in> set (calls (Compare sampleEnv [] sampleUpper []))"
  using C5_overlay_rewrite
          [of "[''workdir=/w'', ''upperdir=/u'', ''lowerdir=/l2:/l1'']" "[]" sampleEnv "[]" sampleUpper]
  by (simp add: eval_defs rewriteUpper_map overlayMount_def sampleUpper_def overlay_eval)

text \<open>
  The claim as stated fails where the \<^verbatim>\<open>upperdir=\<close> entry has the empty value: the
  entry is present and is removed, but nothing is put before the value of
  \<^verbatim>\<open>lowerdir=\<close>.
\<close>

theorem C5_counterexample:
  "HasPrefix ''upperdir='' ''upperdir='' \<and>
   readonlyOverlay [''upperdir='', ''lowerdir=/b''] = [''lowerdir=/b''] \<and>
   readonlyOverlay [''upperdir='', ''lowerdir=/b''] \<noteq>
     [''lowerdir='' @ TrimPrefix ''upperdir='' ''upperdir='' @ '':'' @
      TrimPrefix ''lowerdir=/b'' ''lowerdir='']"
  by (simp add: overlay_eval)

subsection \<open>Errors and the configuration\<close>

text \<open>
  Claim C9. Whenever Compare returns an error, whatever step it comes from, the
  descriptor it returns with it is the empty descriptor. The closure may have assigned
  \<^verbatim>\<open>ocidesc\<close> already: when unmounting fails after the closure returned, Compare
  still returns the empty descriptor.
\<close>

theorem C9_error_with_empty_descriptor:
  "ret_err (Compare env lower upper opts) \<noteq> None \<Longrightarrow>
   ret_d (Compare env lower upper opts) = emptyDesc"
  using diffAndStore_error_emptyDesc
  by (auto simp: Compare_def Let_def split: sum.splits prod.splits)

theorem C9_error_with_empty_descriptor_witness:
  "ret_err (Compare (sampleEnv\<lparr>mount_UnmountAll := \<lambda>which root. Some (ErrExternal ''device busy'')\<rparr>)
              [] [] []) \<noteq> None \<and>
   EvCommit 0 ''sha256:blob'' (Some sampleLabels)
     \<in> set (calls (Compare (sampleEnv\<lparr>mount_UnmountAll :=
                                \<lambda>which root. Some (ErrExternal ''device busy'')\<rparr>) [] [] [])) \<and>
   ret_d (Compare (sampleEnv\<lparr>mount_UnmountAll := \<lambda>which root. Some (ErrExternal ''device busy'')\<rparr>)
            [] [] []) = emptyDesc"
  using C9_error_with_empty_descriptor
          [of "sampleEnv\<lparr>mount_UnmountAll := \<lambda>which root. Some (ErrExternal ''device busy'')\<rparr>"
              "[]" "[]" "[]"]
  by (simp add: eval_defs)

text \<open>
  Claim C6. When the options leave a configuration with a custom compressor and an
  empty media type, Compare fails with the configuration error, and it has made no call
  at all by then: no mount and no store operation.
\<close>

theorem C6_compressor_without_media_type:
  assumes "applyOpts opts zeroConfig = Inr c0" and "Compressor c0 \<noteq> None" and "MediaType c0 = ''''"
  shows "Compare env lower upper opts =
     \<lparr>ret_d = emptyDesc,
      ret_err = Some (ErrNew ''media type must be explicitly specified when using custom compressor''),
      upper_after = rewriteUpper 0 upper,
      calls = []\<rparr>"
  using assms by (auto simp: Compare_def resolveMediaType_def)

theorem C6_compressor_without_media_type_witness:
  "applyOpts [WithCompressor (\<lambda>mt. Inr (\<lambda>raw. raw))] zeroConfig =
     Inr (zeroConfig\<lparr>Compressor := Some (\<lambda>mt. Inr (\<lambda>raw. raw))\<rparr>) \<and>
   Compare sampleEnv [] [] [WithCompressor (\<lambda>mt. Inr (\<lambda>raw. raw))] =
     \<lparr>ret_d = emptyDesc,
      ret_err = Some (ErrNew ''media type must be explicitly specified when using custom compressor''),
      upper_after = [],
      calls = []\<rparr>"
  using C6_compressor_without_media_type
          [of "[WithCompressor (\<lambda>mt. Inr (\<lambda>raw. raw))]"
              "zeroConfig\<lparr>Compressor := Some (\<lambda>mt. Inr (\<lambda>raw. raw))\<rparr>"
              sampleEnv "[]" "[]"]
  by (simp add: zeroConfig_def WithCompressor_def rewriteUpper.simps)

text \<open>
  Claim C7. With no custom compressor: an empty media type becomes the gzip layer media
  type and Compare goes on with compression; the plain layer media type goes on without
  compression; the gzip layer media type goes on with compression; every other media
  type makes Compare fail with the unsupported-media-type error before any call. The
  last argument of \<open>diffAndStore\<close> is \<^verbatim>\<open>isCompressed\<close>: it decides whether the diff
  is written into the compressor and the digester or into the store writer.
\<close>

theorem C7_media_type_without_compressor:
  assumes "applyOpts opts zeroConfig = Inr c0" and "Compressor c0 = None"
  shows "(MediaType c0 = '''' \<longrightarrow>
            Compare env lower upper opts =
              diffAndStore env lower (rewriteUpper 0 upper)
                (c0\<lparr>MediaType := MediaTypeImageLayerGzip\<rparr>) True) \<and>
         (MediaType c0 = MediaTypeImageLayer \<longrightarrow>
            Compare env lower upper opts =
              diffAndStore env lower (rewriteUpper 0 upper) c0 False) \<and>
         (MediaType c0 = MediaTypeImageLayerGzip \<longrightarrow>
            Compare env lower upper opts =
              diffAndStore env lower (rewriteUpper 0 upper) c0 True) \<and>
         (MediaType c0 \<notin> {'''', MediaTypeImageLayer, MediaTypeImageLayerGzip} \<longrightarrow>
            Compare env lower upper opts =
              \<lparr>ret_d = emptyDesc,
               ret_err = Some (Wrap ErrNotImplemented
                                 (''unsupported diff media type: '' @ MediaType c0)),
               upper_after = rewriteUpper 0 upper,
               calls = []\<rparr>) \<and>
         (\<forall>c isC s lr ur.
            EvWriteDiff s lr ur \<in> set (calls (diffAndStore env lower (rewriteUpper 0 upper) c isC))
              \<longrightarrow> (s = CompressorAndDigester) = isC)"
proof -
  have "\<forall>c isC s lr ur.
          EvWriteDiff s lr ur \<in> set (calls (diffAndStore env lower (rewriteUpper 0 upper) c isC))
            \<longrightarrow> (s = CompressorAndDigester) = isC"
    using sink_of_isCompressed by blast
  with assms show ?thesis
    by (simp add: Compare_def resolveMediaType_def Let_def MediaTypeImageLayer_def
        MediaTypeImageLayerGzip_def)
qed

theorem C7_media_type_without_compressor_witness:
  "Compare sampleEnv [] [] [] =
     diffAndStore sampleEnv [] [] (zeroConfig\<lparr>MediaType := MediaTypeImageLayerGzip\<rparr>) True \<and>
   Compare sampleEnv [] [] [WithMediaType MediaTypeImageLayer] =
     diffAndStore sampleEnv [] [] (zeroConfig\<lparr>MediaType := MediaTypeImageLayer\<rparr>) False \<and>
   Compare sampleEnv [] [] [WithMediaType MediaTypeImageLayerGzip] =
     diffAndStore sampleEnv [] [] (zeroConfig\<lparr>MediaType := MediaTypeImageLayerGzip\<rparr>) True \<and>
   Compare sampleEnv [] [] [WithMediaType ''application/zip''] =
     \<lparr>ret_d = emptyDesc,
      ret_err = Some (Wrap ErrNotImplemented ''unsupported diff media type: application/zip''),
      upper_after = [],
      calls = []\<rparr>"
  using C7_media_type_without_compressor [of "[]" zeroConfig sampleEnv "[]" "[]"]
        C7_media_type_without_compressor
          [of "[WithMediaType MediaTypeImageLayer]"
              "zeroConfig\<lparr>MediaType := MediaTypeImageLayer\<rparr>" sampleEnv "[]" "[]"]
        C7_media_type_without_compressor
          [of "[WithMediaType MediaTypeImageLayerGzip]"
              "zeroConfig\<lparr>MediaType := MediaTypeImageLayerGzip\<rparr>" sampleEnv "[]" "[]"]
        C7_media_type_without_compressor
          [of "[WithMediaType ''application/zip'']"
              "zeroConfig\<lparr>MediaType := ''application/zip''\<rparr>" sampleEnv "[]" "[]"]
  by (simp add: zeroConfig_def WithMediaType_def rewriteUpper.simps MediaTypeImageLayer_def
      MediaTypeImageLayerGzip_def)

subsection \<open>The writer\<close>

text \<open>
  Claim C8. Once the store writer is open, it is truncated to length zero before any
  diff is written exactly when the reference came from the caller: with a generated
  reference the trace has no truncation at all; with a caller's reference the call right
  after the successful \<^verbatim>\<open>store.Writer\<close> is \<^verbatim>\<open>cw.Truncate(0)\<close>, and no
  \<^verbatim>\<open>archive.WriteDiff\<close> comes before it.
\<close>

theorem C8_truncate_iff_caller_reference:
  assumes "applyOpts opts zeroConfig = Inr c0"
  shows "(Reference c0 = '''' \<longrightarrow>
           (\<forall>n. EvTruncate n \<notin> set (calls (Compare env lower upper opts)))) \<and>
         (Reference c0 \<noteq> '''' \<longrightarrow>
           (\<forall>ref mt. EvWriter ref mt \<in> set (calls (Compare env lower upper opts)) \<and>
                      store_Writer env ref mt = None \<longrightarrow>
              nextCall (EvWriter ref mt) (calls (Compare env lower upper opts)) =
                Some (EvTruncate 0) \<and>
              (\<forall>s lr ur. EvWriteDiff s lr ur \<notin>
                 set (takeWhile (\<lambda>e. e \<noteq> EvTruncate 0)
                        (calls (Compare env lower upper opts))))))"
proof (cases "resolveMediaType c0")
  case (Inl e)
  with assms show ?thesis by (simp add: Compare_config_fail)
next
  case (Inr p)
  then obtain c isC where res: "resolveMediaType c0 = Inr (c, isC)" by (cases p) simp
  have ref: "Reference c = Reference c0"
    using res by (rule resolveMediaType_fields)
  show ?thesis
    unfolding Compare_resolved [OF assms res]
    using fresh_never_truncates [of c _ env lower "rewriteUpper 0 upper" isC]
          reused_truncates_first [of c _ _ env lower "rewriteUpper 0 upper" isC]
    by (auto simp: ref)
qed

theorem C8_truncate_iff_caller_reference_witness:
  "applyOpts [WithReference ''layer-7''] zeroConfig = Inr (zeroConfig\<lparr>Reference := ''layer-7''\<rparr>) \<and>
   EvWriter ''layer-7'' MediaTypeImageLayerGzip
     \<in> set (calls (Compare sampleEnv [] [] [WithReference ''layer-7''])) \<and>
   nextCall (EvWriter ''layer-7'' MediaTypeImageLayerGzip)
     (calls (Compare sampleEnv [] [] [WithReference ''layer-7''])) = Some (EvTruncate 0) \<and>
   applyOpts [] zeroConfig = Inr zeroConfig \<and>
   EvTruncate 0 \<notin> set (calls (Compare sampleEnv [] [] []))"
  using C8_truncate_iff_caller_reference
          [of "[WithReference ''layer-7'']" "zeroConfig\<lparr>Reference := ''layer-7''\<rparr>"
              sampleEnv "[]" "[]"]
        C8_truncate_iff_caller_reference [of "[]" zeroConfig sampleEnv "[]" "[]"]
  by (simp add: eval_defs WithReference_def)



subsection \<open>The commit and the label\<close>

text \<open>
  Claim C3. An already-exists answer of \<^verbatim>\<open>cw.Commit\<close> is taken as success: Compare
  behaves in every respect as in the environment where those answers are replaced by
  the answer of a commit that went through. After such an answer the next call is
  \<^verbatim>\<open>store.Info\<close> of the digest, and when the metadata is read, the label step does not
  fail and the unmounts succeed, Compare returns no error and the descriptor of the blob
  the store reports (its digest and size, and the media type the writer was opened
  with). After any other commit error Compare returns an error and the empty descriptor,
  and never asks for the metadata.
\<close>

theorem C3_already_exists_is_success:
  "Compare (dedupAsSuccess env) lower upper opts = Compare env lower upper opts \<and>
   (\<forall>n d ls e.
      EvCommit n d ls \<in> set (calls (Compare env lower upper opts)) \<and>
      cw_Commit env n d ls = Some e \<longrightarrow>
      (IsAlreadyExists e \<longrightarrow>
         nextCall (EvCommit n d ls) (calls (Compare env lower upper opts)) = Some (EvInfo d) \<and>
         (\<forall>info. store_Info env d = Inr info \<and>
                 (storedLabel info \<noteq> None \<or>
                  store_Update env (patchedInfo info (labelOf ls uncompressed))
                    [''labels.'' @ uncompressed] = None) \<and>
                 (\<forall>which root.
                    EvUnmount which root \<in> set (calls (Compare env lower upper opts)) \<longrightarrow>
                    mount_UnmountAll env which root = None) \<longrightarrow>
            ret_err (Compare env lower upper opts) = None \<and>
            desc_Digest (ret_d (Compare env lower upper opts)) = info_Digest info \<and>
            desc_Size (ret_d (Compare env lower upper opts)) = info_Size info \<and>
            (\<forall>ref mt. EvWriter ref mt \<in> set (calls (Compare env lower upper opts)) \<longrightarrow>
               desc_MediaType (ret_d (Compare env lower upper opts)) = mt))) \<and>
      (\<not> IsAlreadyExists e \<longrightarrow>
         ret_err (Compare env lower upper opts) \<noteq> None \<and>
         ret_d (Compare env lower upper opts) = emptyDesc \<and>
         (\<forall>d'. EvInfo d' \<notin> set (calls (Compare env lower upper opts)))))"
  using commit_answer_Compare [of _ _ _ env lower upper opts]
  by (intro conjI allI impI Compare_dedupAsSuccess) blast+

theorem C3_already_exists_is_success_witness:
  "EvCommit 0 ''sha256:blob'' (Some sampleLabels) \<in> set (calls (Compare existingEnv [] [] [])) \<and>
   cw_Commit existingEnv 0 ''sha256:blob'' (Some sampleLabels) =
     Some (Wrap ErrAlreadyExists ''content sha256:blob'') \<and>
   IsAlreadyExists (Wrap ErrAlreadyExists ''content sha256:blob'') \<and>
   nextCall (EvCommit 0 ''sha256:blob'' (Some sampleLabels)) (calls (Compare existingEnv [] [] [])) =
     Some (EvInfo ''sha256:blob'') \<and>
   ret_err (Compare existingEnv [] [] []) = None \<and>
   ret_d (Compare existingEnv [] [] []) =
     \<lparr>desc_MediaType = MediaTypeImageLayerGzip, desc_Digest = ''sha256:blob'', desc_Size = 5\<rparr> \<and>
   EvCommit 0 ''sha256:blob'' (Some sampleLabels)
     \<in> set (calls (Compare (sampleEnv\<lparr>cw_Commit := \<lambda>n d ls. Some (ErrExternal ''disk full'')\<rparr>)
                     [] [] [])) \<and>
   \<not> IsAlreadyExists (ErrExternal ''disk full'') \<and>
   ret_err (Compare (sampleEnv\<lparr>cw_Commit := \<lambda>n d ls. Some (ErrExternal ''disk full'')\<rparr>) [] [] []) =
     Some (Wrap (ErrExternal ''disk full'') ''failed to commit'')"
  using C3_already_exists_is_success [of existingEnv "[]" "[]" "[]"]
        C3_already_exists_is_success
          [of "sampleEnv\<lparr>cw_Commit := \<lambda>n d ls. Some (ErrExternal ''disk full'')\<rparr>" "[]" "[]" "[]"]
  by (simp add: eval_defs existingEnv_def)

text \<open>
  Claim C2, as amended. After a commit that went through or was answered already-exists,
  the next call of Compare is \<^verbatim>\<open>store.Info\<close> of the digest it committed under. When
  the metadata read back has no uncompressed-digest label, the call after that is
  \<^verbatim>\<open>store.Update\<close> of that metadata with the label added, for the one field
  \<^verbatim>\<open>labels.containerd.io/uncompressed\<close>; the value is the one that the labels of the
  commit hold under the key (on the compressed path the digest of the raw bytes;
  otherwise the caller's label, or the empty string), whether or not this run computed
  an uncompressed digest. When the metadata has the label, or cannot be read, Compare
  makes no update at all: an existing value is never overwritten.
\<close>

theorem C2_label_reconciliation:
  assumes "EvCommit n d ls \<in> set (calls (Compare env lower upper opts))"
    and "cw_Commit env n d ls = None \<or> (\<exists>e. cw_Commit env n d ls = Some e \<and> IsAlreadyExists e)"
  shows "nextCall (EvCommit n d ls) (calls (Compare env lower upper opts)) = Some (EvInfo d) \<and>
         (\<forall>e. store_Info env d = Inl e \<longrightarrow>
            (\<forall>i fs. EvUpdate i fs \<notin> set (calls (Compare env lower upper opts)))) \<and>
         (\<forall>info. store_Info env d = Inr info \<longrightarrow>
            (storedLabel info \<noteq> None \<longrightarrow>
               (\<forall>i fs. EvUpdate i fs \<notin> set (calls (Compare env lower upper opts)))) \<and>
            (storedLabel info = None \<longrightarrow>
               nextCall (EvInfo d) (calls (Compare env lower upper opts)) =
                 Some (EvUpdate (patchedInfo info (labelOf ls uncompressed))
                         [''labels.'' @ uncompressed]) \<and>
               (\<forall>i fs. EvUpdate i fs \<in> set (calls (Compare env lower upper opts)) \<longrightarrow>
                  i = patchedInfo info (labelOf ls uncompressed) \<and>
                  fs = [''labels.'' @ uncompressed])))"
proof (cases "applyOpts opts zeroConfig")
  case (Inl e')
  with assms(1) show ?thesis by (simp add: Compare_opts_fail)
next
  case opts: (Inr c0)
  show ?thesis
  proof (cases "resolveMediaType c0")
    case (Inl e')
    with opts assms(1) show ?thesis by (simp add: Compare_config_fail)
  next
    case (Inr p)
    then obtain c isC where res: "resolveMediaType c0 = Inr (c, isC)" by (cases p) simp
    have eq: "Compare env lower upper opts = diffAndStore env lower (rewriteUpper 0 upper) c isC"
      by (rule Compare_resolved [OF opts res])
    from assms(2) have cm: "case cw_Commit env n d ls of None \<Rightarrow> True | Some e \<Rightarrow> IsAlreadyExists e"
      by (auto split: option.splits)
    from assms(1) show ?thesis
      unfolding eq by (intro reconcile_after_commit cm)
  qed
qed

theorem C2_label_reconciliation_witness:
  "EvCommit 0 ''sha256:blob'' (Some sampleLabels) \<in> set (calls (Compare unlabelledEnv [] [] [])) \<and>
   cw_Commit unlabelledEnv 0 ''sha256:blob'' (Some sampleLabels) = None \<and>
   nextCall (EvCommit 0 ''sha256:blob'' (Some sampleLabels)) (calls (Compare unlabelledEnv [] [] [])) =
     Some (EvInfo ''sha256:blob'') \<and>
   store_Info unlabelledEnv ''sha256:blob'' =
     Inr \<lparr>info_Digest = ''sha256:blob'', info_Size = 3, info_Labels = None\<rparr> \<and>
   nextCall (EvInfo ''sha256:blob'') (calls (Compare unlabelledEnv [] [] [])) =
     Some (EvUpdate \<lparr>info_Digest = ''sha256:blob'', info_Size = 3,
                     info_Labels = Some [uncompressed \<mapsto> ''sha256:raw'']\<rparr>
             [''labels.containerd.io/uncompressed'']) \<and>
   EvCommit 0 ''sha256:blob'' (Some sampleLabels) \<in> set (calls (Compare existingEnv [] [] [])) \<and>
   IsAlreadyExists (Wrap ErrAlreadyExists ''content sha256:blob'') \<and>
   storedLabel \<lparr>info_Digest = ''sha256:blob'', info_Size = 5,
                info_Labels = Some [uncompressed \<mapsto> ''sha256:earlier'']\<rparr> = Some ''sha256:earlier'' \<and>
   EvUpdate \<lparr>info_Digest = ''sha256:blob'', info_Size = 5,
             info_Labels = Some [uncompressed \<mapsto> ''sha256:raw'']\<rparr>
     [''labels.containerd.io/uncompressed''] \<notin> set (calls (Compare existingEnv [] [] []))"
  using C2_label_reconciliation
          [of 0 "''sha256:blob''" "Some sampleLabels" unlabelledEnv "[]" "[]" "[]"]
        C2_label_reconciliation
          [of 0 "''sha256:blob''" "Some sampleLabels" existingEnv "[]" "[]" "[]"]
  by (simp add: eval_defs existingEnv_def unlabelledEnv_def storedLabel_def patchedInfo_def)

text \<open>
  The claim as stated fails on the uncompressed path: no uncompressed digest is computed
  (the diff goes into the store writer, the commit has no labels), the blob is reported
  without the label, and Compare still patches the label in, with the empty string.
\<close>

theorem C2_counterexample:
  "calls (Compare unlabelledEnv [] [] [WithMediaType MediaTypeImageLayer]) =
     [EvMount LowerSet [], EvMount UpperSet [], EvUniqueRef,
      EvWriter ''1700000000-AAAA'' MediaTypeImageLayer,
      EvWriteDiff StoreWriter ''/tmp/lower'' ''/tmp/upper'',
      EvDigest, EvCommit 0 ''sha256:blob'' None, EvInfo ''sha256:blob'',
      EvUpdate \<lparr>info_Digest = ''sha256:blob'', info_Size = 3,
                info_Labels = Some [uncompressed \<mapsto> '''']\<rparr>
        [''labels.containerd.io/uncompressed''],
      EvUnmount UpperSet ''/tmp/upper'', EvUnmount LowerSet ''/tmp/lower''] \<and>
   ret_err (Compare unlabelledEnv [] [] [WithMediaType MediaTypeImageLayer]) = None"
  by (simp add: eval_defs unlabelledEnv_def WithMediaType_def)

text \<open>
  Claim C1, as amended. When Compare succeeds on the compressed path, the diff went
  into the compressor and the digester, the labels of the commit hold the SHA-256
  digest of the raw bytes of the diff under \<^verbatim>\<open>containerd.io/uncompressed\<close>, and the
  metadata of the blob was read back. If that metadata had no such label, Compare
  patched it in, with that digest, and the update succeeded. If it had the label
  already, Compare made no update: the stored value stays, whatever it is.
\<close>

theorem C1_uncompressed_label:
  assumes "applyOpts opts zeroConfig = Inr c0"
    and "resolveMediaType c0 = Inr (c, True)"
    and "ret_err (Compare env lower upper opts) = None"
  shows "\<exists>lr ur d ls info.
           EvWriteDiff CompressorAndDigester lr ur \<in> set (calls (Compare env lower upper opts)) \<and>
           EvCommit 0 d (Some ls) \<in> set (calls (Compare env lower upper opts)) \<and>
           ls uncompressed = Some (digest_SHA256 env (fst (archive_WriteDiff env lr ur))) \<and>
           store_Info env d = Inr info \<and>
           (storedLabel info \<noteq> None \<longrightarrow>
              (\<forall>i fs. EvUpdate i fs \<notin> set (calls (Compare env lower upper opts)))) \<and>
           (storedLabel info = None \<longrightarrow>
              EvUpdate (patchedInfo info (digest_SHA256 env (fst (archive_WriteDiff env lr ur))))
                [''labels.'' @ uncompressed]
                \<in> set (calls (Compare env lower upper opts)) \<and>
              store_Update env
                (patchedInfo info (digest_SHA256 env (fst (archive_WriteDiff env lr ur))))
                [''labels.'' @ uncompressed] = None)"
  using assms(3) unfolding Compare_resolved [OF assms(1,2)]
  by (rule compressed_success_labelled)

theorem C1_uncompressed_label_witness:
  "applyOpts [] zeroConfig = Inr zeroConfig \<and>
   resolveMediaType zeroConfig = Inr (zeroConfig\<lparr>MediaType := MediaTypeImageLayerGzip\<rparr>, True) \<and>
   ret_err (Compare unlabelledEnv [] [] []) = None \<and>
   EvWriteDiff CompressorAndDigester ''/tmp/lower'' ''/tmp/upper''
     \<in> set (calls (Compare unlabelledEnv [] [] [])) \<and>
   digest_SHA256 unlabelledEnv (fst (archive_WriteDiff unlabelledEnv ''/tmp/lower'' ''/tmp/upper'')) =
     ''sha256:raw'' \<and>
   EvCommit 0 ''sha256:blob'' (Some [uncompressed \<mapsto> ''sha256:raw''])
     \<in> set (calls (Compare unlabelledEnv [] [] [])) \<and>
   EvUpdate \<lparr>info_Digest = ''sha256:blob'', info_Size = 3,
             info_Labels = Some [uncompressed \<mapsto> ''sha256:raw'']\<rparr>
     [''labels.containerd.io/uncompressed'']
     \<in> set (calls (Compare unlabelledEnv [] [] []))"
  using C1_uncompressed_label
          [of "[]" zeroConfig "zeroConfig\<lparr>MediaType := MediaTypeImageLayerGzip\<rparr>"
              unlabelledEnv "[]" "[]"]
  by (simp add: eval_defs unlabelledEnv_def)

text \<open>
  The claim as stated fails where the blob exists already with a label of another
  value: the commit answers already-exists, Compare succeeds and makes no update, and
  the stored label is not the digest of the raw bytes of this run.
\<close>

theorem C1_counterexample:
  "ret_err (Compare existingEnv [] [] []) = None \<and>
   calls (Compare existingEnv [] [] []) =
     [EvMount LowerSet [], EvMount UpperSet [], EvUniqueRef,
      EvWriter ''1700000000-AAAA'' MediaTypeImageLayerGzip, EvCompressStream,
      EvWriteDiff CompressorAndDigester ''/tmp/lower'' ''/tmp/upper'', EvCompressedClose,
      EvDigest, EvCommit 0 ''sha256:blob'' (Some [uncompressed \<mapsto> ''sha256:raw'']),
      EvInfo ''sha256:blob'',
      EvUnmount UpperSet ''/tmp/upper'', EvUnmount LowerSet ''/tmp/lower''] \<and>
   cw_Commit existingEnv 0 ''sha256:blob'' (Some [uncompressed \<mapsto> ''sha256:raw'']) =
     Some (Wrap ErrAlreadyExists ''content sha256:blob'') \<and>
   store_Info existingEnv ''sha256:blob'' =
     Inr \<lparr>info_Digest = ''sha256:blob'', info_Size = 5,
          info_Labels = Some [uncompressed \<mapsto> ''sha256:earlier'']\<rparr> \<and>
   digest_SHA256 existingEnv (fst (archive_WriteDiff existingEnv ''/tmp/lower'' ''/tmp/upper'')) =
     ''sha256:raw'' \<and>
   storedLabel \<lparr>info_Digest = ''sha256:blob'', info_Size = 5,
                info_Labels = Some [uncompressed \<mapsto> ''sha256:earlier'']\<rparr> \<noteq> Some ''sha256:raw''"
  by (simp add: eval_defs existingEnv_def storedLabel_def)


end
